theory Spec2Isabelle
  imports Complex_Main
begin

section \<open>Errors, arrays and images\<close>

text \<open>
  The two pipelines of the repository, \<^verbatim>\<open>brain_age\<close> and
  \<^verbatim>\<open>sysu_media_wmh_segmentation\<close>, are embedded as functions that return
  either an error or a result. An error is the exception the call ends in, none being
  caught: \<open>ValueError\<close>, \<open>IndexError\<close>, \<open>KeyError\<close> and \<open>TypeError\<close> are
  Python's exceptions of these classes with their messages, whether the pipeline raises
  them itself or NumPy, the standard library or the Python layer of ANTs does;
  \<open>LibraryError\<close> is a failure inside a compiled library.

  Voxel intensities are real numbers. A value produced by a floating-point division is a
  \<open>real option\<close>: \<open>None\<close> stands for the non-finite result (nan or inf) that NumPy
  gives for a division by zero, which it reports as a warning and not as an exception.
  The arithmetic is that of the real numbers: the rounding and the overflow of the code's
  float32 values are not modelled, and no statement below rests on the numeric value of a
  normalised voxel.
\<close>

datatype error =
  ValueError string | IndexError string | KeyError string | TypeError string | LibraryError string

definition ebind :: "error + 'a \<Rightarrow> ('a \<Rightarrow> error + 'b) \<Rightarrow> error + 'b" where
  "ebind m f = (case m of Inl e \<Rightarrow> Inl e | Inr x \<Rightarrow> f x)"

text \<open>A \<^verbatim>\<open>for\<close> loop over a list that stops at the first exception.\<close>

fun efold :: "('x \<Rightarrow> 's \<Rightarrow> error + 's) \<Rightarrow> 'x list \<Rightarrow> 's \<Rightarrow> error + 's" where
  "efold f [] s = Inr s"
| "efold f (x # xs) s = (case f x s of Inl e \<Rightarrow> Inl e | Inr s' \<Rightarrow> efold f xs s')"

text \<open>
  A NumPy array is its shape and its elements, read at a multi-index. Only the elements at
  indices inside the shape are meaningful.
\<close>

record 'a ndarray =
  shape :: "nat list"
  data :: "nat list \<Rightarrow> 'a"

text \<open>
  An ANTsImage is its pixel array with the header: origin, spacing and direction. Its
  \<^verbatim>\<open>dimension\<close> and \<^verbatim>\<open>shape\<close> attributes are those of the pixel array.
\<close>

record 'a image =
  pixels :: "'a ndarray"
  origin :: "real list"
  spacing :: "real list"
  direction :: "real list list"

definition dimension :: "'a image \<Rightarrow> nat" where
  "dimension img = length (shape (pixels img))"

definition valid_index :: "nat list \<Rightarrow> nat list \<Rightarrow> bool" where
  "valid_index shp idx = list_all2 (<) idx shp"

text \<open>All indices of a shape, in NumPy's row-major order.\<close>

fun all_indices :: "nat list \<Rightarrow> nat list list" where
  "all_indices [] = [[]]"
| "all_indices (n # ns) = concat (map (\<lambda>i. map ((#) i) (all_indices ns)) [0..<n])"

definition voxels :: "'a ndarray \<Rightarrow> 'a list" where
  "voxels a = map (data a) (all_indices (shape a))"

definition np_zeros :: "nat list \<Rightarrow> real option ndarray" where
  "np_zeros shp = \<lparr>shape = shp, data = (\<lambda>idx. Some 0)\<rparr>"

text \<open>\<^verbatim>\<open>a.min()\<close> and \<^verbatim>\<open>a.max()\<close>: NumPy raises on an array with no element.\<close>

definition np_min :: "real ndarray \<Rightarrow> error + real" where
  "np_min a =
     (case voxels a of
        [] \<Rightarrow> Inl (ValueError ''zero-size array to reduction operation minimum which has no identity'')
      | v # vs \<Rightarrow> Inr (fold min vs v))"

definition np_max :: "real ndarray \<Rightarrow> error + real" where
  "np_max a =
     (case voxels a of
        [] \<Rightarrow> Inl (ValueError ''zero-size array to reduction operation maximum which has no identity'')
      | v # vs \<Rightarrow> Inr (fold max vs v))"

text \<open>True division of floating-point numbers: no exception, a non-finite value when the
  divisor is zero.\<close>

definition np_div :: "real \<Rightarrow> real \<Rightarrow> real option" where
  "np_div x d = (if d = 0 then None else Some (x / d))"

definition image_map :: "('a \<Rightarrow> 'b) \<Rightarrow> 'a image \<Rightarrow> 'b image" where
  "image_map f img =
     \<lparr>pixels = \<lparr>shape = shape (pixels img), data = (\<lambda>idx. f (data (pixels img) idx))\<rparr>,
      origin = origin img, spacing = spacing img, direction = direction img\<rparr>"

subsection \<open>Library operations on arrays\<close>

text \<open>
  \<^verbatim>\<open>ants.slice_image\<close>, \<^verbatim>\<open>ants.pad_image\<close>, \<^verbatim>\<open>crop_image_center\<close> and
  \<^verbatim>\<open>ants.from_numpy\<close> return helper images of which the pipelines read only the shape
  and the pixel array (through \<^verbatim>\<open>.numpy()\<close>, or before \<^verbatim>\<open>ants.copy_image_info\<close>
  overwrites the header). They are modelled by that array.
\<close>

definition insert_at :: "nat \<Rightarrow> 'a \<Rightarrow> 'a list \<Rightarrow> 'a list" where
  "insert_at k x xs = take k xs @ x # drop k xs"

definition remove_at :: "nat \<Rightarrow> 'a list \<Rightarrow> 'a list" where
  "remove_at k xs = take k xs @ drop (Suc k) xs"

text \<open>\<^verbatim>\<open>ants.slice_image(image, axis, idx)\<close>: the plane of a volume at index \<open>idx\<close> of
  the axis. The library fails when the index is not a slice of the volume.\<close>

definition slice_image :: "'a image \<Rightarrow> nat \<Rightarrow> nat \<Rightarrow> error + 'a ndarray" where
  "slice_image img axis idx =
     (if dimension img < 3 \<or> dimension img \<le> axis
      then Inl (LibraryError ''slice_image: image dimension or axis not supported'')
      else if shape (pixels img) ! axis \<le> idx
      then Inl (LibraryError ''slice_image: index out of range'')
      else Inr \<lparr>shape = remove_at axis (shape (pixels img)),
                data = (\<lambda>j. data (pixels img) (insert_at axis idx j))\<rparr>)"

text \<open>The assignment \<^verbatim>\<open>batchX[i,:,:,c] = s\<close> on a four-dimensional array. The
  planes assigned by the pipelines have exactly the shape of the target; another shape is
  reported as NumPy's broadcast error.\<close>

definition set_plane :: "'a ndarray \<Rightarrow> nat \<Rightarrow> nat \<Rightarrow> 'a ndarray \<Rightarrow> error + 'a ndarray" where
  "set_plane b i c s =
     (if length (shape b) \<noteq> 4 then Inl (IndexError ''too many indices for array'')
      else if shape b ! 0 \<le> i \<or> shape b ! 3 \<le> c then Inl (IndexError ''index out of bounds'')
      else if shape s \<noteq> [shape b ! 1, shape b ! 2]
      then Inl (ValueError ''could not broadcast input array'')
      else Inr \<lparr>shape = shape b,
                data = (\<lambda>idx. if length idx = 4 \<and> idx ! 0 = i \<and> idx ! 3 = c
                              then data s [idx ! 1, idx ! 2] else data b idx)\<rparr>)"

section \<open>The world outside: files, progress output, opaque library calls\<close>

text \<open>
  The state threaded through a pipeline: the paths that exist on disk, and the trace of
  what the pipeline printed and which downloads it asked for.
\<close>

datatype event = Print string | Download string "string option"

record state =
  files :: "string set"
  trace :: "event list"

record prep_args =
  truncate_intensity :: "real \<times> real"
  do_brain_extraction :: bool
  template :: "string option"
  template_transform_type :: "string option"
  do_bias_correction :: bool
  do_denoising :: bool
  prep_output_directory :: "string option"
  prep_verbose :: bool

record prep_result =
  preprocessed_image :: "real image"
  result_brain_mask :: "real image option"

text \<open>
  The calls whose results the pipelines only pass on are parameters of the model:
  the package's own \<^verbatim>\<open>preprocess_brain_image\<close>, \<^verbatim>\<open>get_pretrained_network\<close> and
  \<^verbatim>\<open>create_sysu_media_unet_model_2d\<close> (not among the sources), Keras' model loading and
  prediction, and ANTs' mask estimation, centre of mass and interpolation. Preprocessing
  and downloading may write files.
\<close>

record 'm lib =
  preprocess_brain_image :: "real image \<Rightarrow> prep_args \<Rightarrow> string set \<Rightarrow> prep_result \<times> string set"
  get_pretrained_network :: "string \<Rightarrow> string option \<Rightarrow> string set \<Rightarrow> string \<times> string set"
  load_model :: "string \<Rightarrow> 'm"
  create_sysu_media_unet_model_2d :: "nat list \<Rightarrow> 'm"
  load_weights :: "'m \<Rightarrow> string \<Rightarrow> 'm"
  predict :: "'m \<Rightarrow> real option ndarray \<Rightarrow> real ndarray"
  get_mask :: "real image \<Rightarrow> real image"
  get_center_of_mass :: "real image \<Rightarrow> real list"
  interpolate :: "real image \<Rightarrow> real list \<Rightarrow> real"

definition say :: "bool \<Rightarrow> string \<Rightarrow> state \<Rightarrow> state" where
  "say verbose msg st = (if verbose then st\<lparr>trace := trace st @ [Print msg]\<rparr> else st)"

definition fetch :: "'m lib \<Rightarrow> string \<Rightarrow> string option \<Rightarrow> state \<Rightarrow> string \<times> state" where
  "fetch lib name target st =
     (let (f, fs) = get_pretrained_network lib name target (files st)
      in (f, \<lparr>files = fs, trace = trace st @ [Download name target]\<rparr>))"

definition preprocess :: "'m lib \<Rightarrow> real image \<Rightarrow> prep_args \<Rightarrow> state \<Rightarrow> prep_result \<times> state" where
  "preprocess lib img args st =
     (let (r, fs) = preprocess_brain_image lib img args (files st) in (r, st\<lparr>files := fs\<rparr>))"

text \<open>\<^verbatim>\<open>ants.image_physical_space_consistency\<close>, which ANTsImage arithmetic and mask
  indexing check before they touch the pixels (tolerance \<open>0.01\<close>).\<close>

definition close_lists :: "real list \<Rightarrow> real list \<Rightarrow> bool" where
  "close_lists xs ys = list_all (\<lambda>(x, y). \<not> \<bar>x - y\<bar> > 1 / 100) (zip xs ys)"

definition image_physical_space_consistency :: "'a image \<Rightarrow> 'b image \<Rightarrow> bool" where
  "image_physical_space_consistency a b =
     (dimension a = dimension b \<and> close_lists (spacing a) (spacing b)
      \<and> close_lists (origin a) (origin b)
      \<and> close_lists (concat (direction a)) (concat (direction b)))"

definition image_mul :: "real image \<Rightarrow> real image \<Rightarrow> error + real image" where
  "image_mul a b =
     (if \<not> image_physical_space_consistency a b
      then Inl (ValueError ''images do not occupy same physical space'')
      else if shape (pixels a) \<noteq> shape (pixels b)
      then Inl (ValueError ''operands could not be broadcast together'')
      else Inr (a\<lparr>pixels := \<lparr>shape = shape (pixels a),
                              data = (\<lambda>idx. data (pixels a) idx * data (pixels b) idx)\<rparr>\<rparr>))"

section \<open>brain_age\<close>

record age_result =
  predicted_age :: "real ndarray"
  brain_age_per_slice :: "real ndarray"

definition dimension_message :: string where
  "dimension_message = ''Image dimension must be 3.''"

text \<open>Lines 75 to 86: the optional preprocessing, and the product with the brain mask.\<close>

definition brain_age_preprocess ::
  "'m lib \<Rightarrow> real image \<Rightarrow> bool \<Rightarrow> string option \<Rightarrow> bool \<Rightarrow> state \<Rightarrow> (error + real image) \<times> state" where
  "brain_age_preprocess lib t1 do_preprocessing output_directory verbose st =
     (if do_preprocessing then
        (let (t1_preprocessing, st') =
               preprocess lib t1
                 \<lparr>truncate_intensity = (1 / 100, 99 / 100), do_brain_extraction = True,
                  template = Some ''croppedMni152'', template_transform_type = Some ''AffineFast'',
                  do_bias_correction = True, do_denoising = False,
                  prep_output_directory = output_directory, prep_verbose = verbose\<rparr> st
         in (case result_brain_mask t1_preprocessing of
               None \<Rightarrow> Inl (KeyError ''brain_mask'')
             | Some m \<Rightarrow> image_mul (preprocessed_image t1_preprocessing) m, st'))
      else (Inr t1, st))"

text \<open>Line 88: \<^verbatim>\<open>(t - t.min()) / (t.max() - t.min())\<close>.\<close>

definition brain_age_normalize :: "real image \<Rightarrow> error + real option image" where
  "brain_age_normalize t =
     ebind (np_min (pixels t)) (\<lambda>lo.
     ebind (np_max (pixels t)) (\<lambda>hi.
       Inr (image_map (\<lambda>v. np_div (v - lo) (hi - lo)) t)))"

text \<open>Lines 96 to 104: where the weights are, downloading them when they are not there.\<close>

definition brain_age_weights :: "'m lib \<Rightarrow> string option \<Rightarrow> bool \<Rightarrow> state \<Rightarrow> string \<times> state" where
  "brain_age_weights lib output_directory verbose st =
     (case output_directory of
        Some d \<Rightarrow>
          (let model_weights_file_name = d @ ''/DeepBrainNetModel.h5''
           in if model_weights_file_name \<notin> files st
              then fetch lib ''brainAgeDeepBrainNet'' (Some model_weights_file_name)
                     (say verbose ''Brain age (DeepBrainNet):  downloading model weights.'' st)
              else (model_weights_file_name, st))
      | None \<Rightarrow> fetch lib ''brainAgeDeepBrainNet'' None st)"

text \<open>Lines 111 to 122: the batch of 80 three-channel slices.\<close>

definition which_slices :: "nat list" where
  "which_slices = [45..<125]"

definition brain_age_row :: "'a image \<Rightarrow> nat \<Rightarrow> 'a ndarray \<Rightarrow> error + 'a ndarray" where
  "brain_age_row t i b =
     ebind (slice_image t 2 (which_slices ! i - 1)) (\<lambda>s0.
     ebind (set_plane b i 0 s0) (\<lambda>b0.
     ebind (slice_image t 2 (which_slices ! i)) (\<lambda>s1.
     ebind (set_plane b0 i 1 s1) (\<lambda>b1.
     ebind (slice_image t 2 (which_slices ! i + 1)) (\<lambda>s2.
     set_plane b1 i 2 s2)))))"

definition brain_age_batch :: "real option image \<Rightarrow> error + real option ndarray" where
  "brain_age_batch t =
     efold (brain_age_row t) [0..<length which_slices]
       (np_zeros (length which_slices # take 2 (shape (pixels t)) @ [3]))"

text \<open>The slice indices the loop asks for, in the order it asks for them.\<close>

definition brain_age_slice_indices :: "nat list" where
  "brain_age_slice_indices =
     concat (map (\<lambda>i. [which_slices ! i - 1, which_slices ! i, which_slices ! i + 1])
               [0..<length which_slices])"

text \<open>
  Line 130: \<^verbatim>\<open>statistics.median(brain_age_per_slice)[0]\<close>. Python's
  \<^verbatim>\<open>statistics.median\<close> sorts the data and returns the middle element, or the mean of
  the two middle elements; of no data it raises StatisticsError, a ValueError.
\<close>

definition statistics_median :: "real list \<Rightarrow> error + real" where
  "statistics_median xs =
     (let d = sort xs; n = length d
      in if n = 0 then Inl (ValueError ''no median for empty data'')
         else if n mod 2 = 1 then Inr (d ! (n div 2))
         else Inr ((d ! (n div 2 - 1) + d ! (n div 2)) / 2))"

text \<open>
  The data are the rows of the prediction array, as iterating it gives them.
  \<^item> An array without axes cannot be iterated; the elements of a one-axis array are
    scalars, and \<^verbatim>\<open>[0]\<close> on their median fails.
  \<^item> A single row is the median without any comparison, and \<^verbatim>\<open>[0]\<close> takes its
    first entry.
  \<^item> Rows of one element each compare by that element; the median is such a row again
    and \<^verbatim>\<open>[0]\<close> strips its first axis: a scalar for a prediction of shape \<open>(n, 1)\<close>,
    a one-element array for \<open>(n, 1, 1)\<close>.
  \<^item> Rows of several elements do not compare: NumPy refuses the truth value of the
    comparison. Of rows without elements current NumPy refuses it too (older versions
    only warned).
\<close>

definition median_index0 :: "real ndarray \<Rightarrow> error + real ndarray" where
  "median_index0 a =
     (if shape a = [] then Inl (TypeError ''iteration over a 0-d array'')
      else if shape a ! 0 = 0 then Inl (ValueError ''no median for empty data'')
      else if length (shape a) = 1 then Inl (IndexError ''invalid index to scalar variable.'')
      else
        (let n = shape a ! 0; row_shape = tl (shape a)
         in if n = 1 then
              (if hd row_shape = 0
               then Inl (IndexError ''index 0 is out of bounds for axis 0 with size 0'')
               else Inr \<lparr>shape = tl row_shape, data = (\<lambda>idx. data a (0 # 0 # idx))\<rparr>)
            else if prod_list row_shape = 1 then
              ebind (statistics_median
                       (map (\<lambda>i. data a (i # replicate (length row_shape) 0)) [0..<n]))
                (\<lambda>m. Inr \<lparr>shape = tl row_shape, data = (\<lambda>idx. m)\<rparr>)
            else if prod_list row_shape = 0
            then Inl (ValueError ''The truth value of an empty array is ambiguous'')
            else Inl (ValueError
                   ''The truth value of an array with more than one element is ambiguous'')))"

text \<open>The whole function.\<close>

definition brain_age ::
  "'m lib \<Rightarrow> real image \<Rightarrow> bool \<Rightarrow> string option \<Rightarrow> bool \<Rightarrow> state \<Rightarrow> (error + age_result) \<times> state" where
  "brain_age lib t1 do_preprocessing output_directory verbose st =
     (if dimension t1 \<noteq> 3 then (Inl (ValueError dimension_message), st)
      else
        (case brain_age_preprocess lib t1 do_preprocessing output_directory verbose st of
           (Inl e, st1) \<Rightarrow> (Inl e, st1)
         | (Inr t1_preprocessed, st1) \<Rightarrow>
             (case brain_age_normalize t1_preprocessed of
                Inl e \<Rightarrow> (Inl e, st1)
              | Inr t1_normalized \<Rightarrow>
                  (let (model_weights_file_name, st2) =
                         brain_age_weights lib output_directory verbose st1;
                       model = load_model lib model_weights_file_name
                   in (case brain_age_batch t1_normalized of
                         Inl e \<Rightarrow> (Inl e, st2)
                       | Inr batchX \<Rightarrow>
                           (let st3 = say verbose
                                  ''Brain age (DeepBrainNet):  predicting brain age per slice.'' st2;
                                per_slice = predict lib model batchX
                            in (case median_index0 per_slice of
                                  Inl e \<Rightarrow> (Inl e, st3)
                                | Inr age \<Rightarrow>
                                    (Inr \<lparr>predicted_age = age, brain_age_per_slice = per_slice\<rparr>,
                                     st3))))))))"

section \<open>sysu_media_wmh_segmentation\<close>

subsection \<open>The nested helper and the cropping it calls\<close>

text \<open>\<^verbatim>\<open>ants.pad_image(image, shape=...)\<close>: each axis grows to the requested extent
  when that is larger, half of the growth (rounded down) before the old content, the pad
  value everywhere else.\<close>

definition pad_image :: "'a \<Rightarrow> 'a ndarray \<Rightarrow> nat list \<Rightarrow> error + 'a ndarray" where
  "pad_image pad_value a shp =
     (if length shp \<noteq> length (shape a) then Inl (LibraryError ''pad_image: shape does not match image'')
      else
        (let lower_pad_vals = map2 (\<lambda>os ns. (ns - os) div 2) (shape a) shp
         in Inr \<lparr>shape = map2 max (shape a) shp,
                  data = (\<lambda>idx. if list_all2 (\<lambda>i (l, os). l \<le> i \<and> i < l + os) idx
                                      (zip lower_pad_vals (shape a))
                                 then data a (map2 (-) idx lower_pad_vals) else pad_value)\<rparr>))"

text \<open>
  Modelled from the spec: \<^verbatim>\<open>crop_image_center\<close> is imported from the package's
  utilities and is not among the sources. It is the centred crop of an image to a size:
  the result has the requested size and shows the input from the offset
  \<open>(image_size - crop_size) div 2\<close> on every axis. A size of another rank or larger
  than the image is rejected.
\<close>

definition crop_image_center :: "'a ndarray \<Rightarrow> nat list \<Rightarrow> error + 'a ndarray" where
  "crop_image_center a crop_size =
     (if length crop_size \<noteq> length (shape a)
      then Inl (ValueError ''crop_size does not match image size.'')
      else if list_ex (\<lambda>(c, s). c > s) (zip crop_size (shape a))
      then Inl (ValueError ''A crop_size dimension is larger than image_size.'')
      else
        (let start_index = map2 (\<lambda>s c. (s - c) div 2) (shape a) crop_size
         in Inr \<lparr>shape = crop_size, data = (\<lambda>idx. data a (map2 (+) idx start_index))\<rparr>))"

text \<open>Lines 71 to 81. The subtraction of the two size vectors is NumPy's; it needs them
  of one length (a one-entry size would broadcast there and be rejected by the crop).\<close>

definition size_differences :: "nat list \<Rightarrow> nat list \<Rightarrow> int list" where
  "size_differences image_size target_size = map2 (\<lambda>a b. int a - int b) image_size target_size"

definition pad_or_crop_image_to_size :: "'a \<Rightarrow> 'a ndarray \<Rightarrow> nat list \<Rightarrow> error + 'a ndarray" where
  "pad_or_crop_image_to_size pad_value img target_size =
     (if length target_size \<noteq> length (shape img)
      then Inl (ValueError ''operands could not be broadcast together'')
      else
        (let image_size = shape img;
             delta = size_differences image_size target_size
         in ebind
              (if list_ex (\<lambda>d. d < 0) delta
               then (let pad_size = nat \<bar>Min (set delta)\<bar>;
                         pad_shape = map (\<lambda>a. a + pad_size) image_size
                     in pad_image pad_value img pad_shape)
               else Inr img)
              (\<lambda>padded. crop_image_center padded target_size)))"

subsection \<open>Preprocessing and the brain mask\<close>

text \<open>Lines 92 to 115. The calls do not name a template: \<open>None\<close> is the helper's
  default.\<close>

definition wmh_prep_args :: "string option \<Rightarrow> bool \<Rightarrow> prep_args" where
  "wmh_prep_args output_directory verbose =
     \<lparr>truncate_intensity = (1 / 100, 99 / 100), do_brain_extraction = False,
      template = None, template_transform_type = None,
      do_bias_correction = True, do_denoising = False,
      prep_output_directory = output_directory, prep_verbose = verbose\<rparr>"

definition wmh_preprocess ::
  "'m lib \<Rightarrow> real image \<Rightarrow> real image option \<Rightarrow> bool \<Rightarrow> string option \<Rightarrow> bool \<Rightarrow> state
     \<Rightarrow> real image \<times> real image option \<times> state" where
  "wmh_preprocess lib flair t1 do_preprocessing output_directory verbose st =
     (let (flair_preprocessed, st1) =
            (if do_preprocessing
             then (let (r, s) = preprocess lib flair (wmh_prep_args output_directory verbose) st
                   in (preprocessed_image r, s))
             else (flair, st))
      in (case t1 of
            None \<Rightarrow> (flair_preprocessed, None, st1)
          | Some t \<Rightarrow>
              (if do_preprocessing
               then (let (r, s) = preprocess lib t (wmh_prep_args output_directory verbose) st1
                     in (flair_preprocessed, Some (preprocessed_image r), s))
               else (flair_preprocessed, Some t, st1))))"

definition number_of_channels :: "real image option \<Rightarrow> nat" where
  "number_of_channels t1 = (case t1 of None \<Rightarrow> 1 | Some t \<Rightarrow> 2)"

text \<open>Lines 123 to 129.\<close>

definition wmh_brain_mask ::
  "'m lib \<Rightarrow> real image \<Rightarrow> real image option \<Rightarrow> real image option \<Rightarrow> bool \<Rightarrow> state
     \<Rightarrow> real image \<times> state" where
  "wmh_brain_mask lib flair t1 brain_mask verbose st =
     (case brain_mask of
        Some m \<Rightarrow> (m, st)
      | None \<Rightarrow>
          (let st' = say verbose ''Estimating brain mask.'' st
           in (case t1 of Some t \<Rightarrow> (get_mask lib t, st') | None \<Rightarrow> (get_mask lib flair, st'))))"

subsection \<open>The translation into the reference frame\<close>

text \<open>Lines 131 to 135.\<close>

definition reference_image :: "real image" where
  "reference_image =
     \<lparr>pixels = \<lparr>shape = [200, 200, 200], data = (\<lambda>idx. 1)\<rparr>,
      origin = [0, 0, 0], spacing = [1, 1, 1],
      direction = [[1, 0, 0], [0, 1, 0], [0, 0, 1]]\<rparr>"

text \<open>
  An Euler3DTransform made from a centre and a translation only: its rotation is the
  identity, so it moves a point by the translation, and its inverse moves it back.
\<close>

record ants_transform =
  center :: "real list"
  translation :: "real list"

definition create_ants_transform :: "real list \<Rightarrow> real list \<Rightarrow> error + ants_transform" where
  "create_ants_transform c t =
     (if length c = 3 \<and> length t = 3 then Inr \<lparr>center = c, translation = t\<rparr>
      else Inl (LibraryError ''create_ants_transform: a three-dimensional transform needs three-vectors''))"

definition invert_ants_transform :: "ants_transform \<Rightarrow> ants_transform" where
  "invert_ants_transform x = x\<lparr>translation := map uminus (translation x)\<rparr>"

definition apply_ants_transform_to_point :: "ants_transform \<Rightarrow> real list \<Rightarrow> real list" where
  "apply_ants_transform_to_point x p = map2 (+) p (translation x)"

text \<open>The subtraction of two one-dimensional NumPy arrays, with its broadcasting.\<close>

definition np_sub :: "real list \<Rightarrow> real list \<Rightarrow> error + real list" where
  "np_sub a b =
     (if length a = length b then Inr (map2 (-) a b)
      else if length b = 1 then Inr (map (\<lambda>x. x - hd b) a)
      else if length a = 1 then Inr (map (\<lambda>y. hd a - y) b)
      else Inl (ValueError ''operands could not be broadcast together''))"

text \<open>The physical point of a voxel: origin + direction * (spacing * index).\<close>

definition index_to_point :: "'a image \<Rightarrow> nat list \<Rightarrow> real list" where
  "index_to_point img idx =
     map2 (+) (origin img)
       (map (\<lambda>row. sum_list (map2 (*) row (map2 (*) (spacing img) (map real idx)))) (direction img))"

text \<open>
  \<^verbatim>\<open>ants.apply_ants_transform_to_image(transform, image, reference)\<close> resamples the
  image onto the grid of the reference: the result has the reference's shape and header,
  and its voxel at an index is the image interpolated at the transformed physical point of
  that index. The transform is three-dimensional; an image of another dimension is
  rejected by the library.
\<close>

definition apply_ants_transform_to_image ::
  "'m lib \<Rightarrow> ants_transform \<Rightarrow> real image \<Rightarrow> 'b image \<Rightarrow> error + real image" where
  "apply_ants_transform_to_image lib x img reference =
     (if dimension img \<noteq> 3 \<or> dimension reference \<noteq> 3
      then Inl (LibraryError ''apply_ants_transform_to_image: image and transform dimensions differ'')
      else Inr \<lparr>pixels = \<lparr>shape = shape (pixels reference),
                          data = (\<lambda>idx. interpolate lib img
                                     (apply_ants_transform_to_point x (index_to_point reference idx)))\<rparr>,
                origin = origin reference, spacing = spacing reference,
                direction = direction reference\<rparr>)"

text \<open>\<^verbatim>\<open>ants.threshold_image(image, 0.5, 1.1, 1, 0)\<close>.\<close>

definition threshold_image :: "real image \<Rightarrow> real image" where
  "threshold_image img = image_map (\<lambda>v. if 1 / 2 \<le> v \<and> v \<le> 11 / 10 then 1 else 0) img"

text \<open>Lines 137 to 141.\<close>

definition wmh_xfrm :: "'m lib \<Rightarrow> real image \<Rightarrow> error + ants_transform" where
  "wmh_xfrm lib brain_mask =
     (let center_of_mass_reference = get_center_of_mass lib reference_image;
          center_of_mass_image = get_center_of_mass lib brain_mask
      in ebind (np_sub center_of_mass_image center_of_mass_reference) (\<lambda>translation.
           create_ants_transform center_of_mass_reference translation))"

subsection \<open>Gaussian normalisation inside the brain mask\<close>

text \<open>\<^verbatim>\<open>image[mask > 0]\<close>: the voxels of the image where the mask is positive.\<close>

definition masked_values :: "real image \<Rightarrow> real image \<Rightarrow> error + real list" where
  "masked_values img brain_mask =
     (if \<not> image_physical_space_consistency img brain_mask
      then Inl (ValueError ''images do not occupy same physical space'')
      else if shape (pixels img) \<noteq> shape (pixels brain_mask)
      then Inl (IndexError ''boolean index did not match indexed array'')
      else Inr (map (data (pixels img))
                  (filter (\<lambda>idx. data (pixels brain_mask) idx > 0) (all_indices (shape (pixels img))))))"

text \<open>NumPy's mean and (population) standard deviation; of no values they are nan.\<close>

definition np_mean :: "real list \<Rightarrow> real option" where
  "np_mean xs = (if xs = [] then None else Some (sum_list xs / real (length xs)))"

definition np_std :: "real list \<Rightarrow> real option" where
  "np_std xs =
     (case np_mean xs of
        None \<Rightarrow> None
      | Some mu \<Rightarrow> Some (sqrt (sum_list (map (\<lambda>x. (x - mu)\<^sup>2) xs) / real (length xs))))"

definition standardize :: "real option \<Rightarrow> real option \<Rightarrow> real \<Rightarrow> real option" where
  "standardize mean std v =
     (case (mean, std) of
        (Some mu, Some sd) \<Rightarrow> np_div (v - mu) sd
      | _ \<Rightarrow> None)"

text \<open>Lines 155 to 157, and 160 to 162 for the second channel.\<close>

definition gaussian_normalize :: "real image \<Rightarrow> real image \<Rightarrow> error + real option image" where
  "gaussian_normalize img brain_mask =
     ebind (masked_values img brain_mask) (\<lambda>vs.
       Inr (image_map (standardize (np_mean vs) (np_std vs)) img))"

text \<open>Lines 137 to 162 together: the transform, the warped volumes, their normalisation.\<close>

definition wmh_volumes ::
  "'m lib \<Rightarrow> real image \<Rightarrow> real image option \<Rightarrow> real image
     \<Rightarrow> error + (ants_transform \<times> real option image \<times> real option image option)" where
  "wmh_volumes lib flair_preprocessed t1_preprocessed brain_mask =
     ebind (wmh_xfrm lib brain_mask) (\<lambda>xfrm.
     ebind (apply_ants_transform_to_image lib xfrm flair_preprocessed reference_image)
       (\<lambda>flair_preprocessed_warped.
     ebind (apply_ants_transform_to_image lib xfrm brain_mask reference_image) (\<lambda>mask_warped.
       (let brain_mask_warped = threshold_image mask_warped
        in ebind (case t1_preprocessed of
                    None \<Rightarrow> Inr None
                  | Some t \<Rightarrow> ebind (apply_ants_transform_to_image lib xfrm t reference_image)
                                (\<lambda>w. Inr (Some w)))
             (\<lambda>t1_preprocessed_warped.
           ebind (gaussian_normalize flair_preprocessed_warped brain_mask_warped) (\<lambda>flair_n.
           ebind (case t1_preprocessed_warped of
                    None \<Rightarrow> Inr None
                  | Some w \<Rightarrow> ebind (gaussian_normalize w brain_mask_warped) (\<lambda>n. Inr (Some n)))
             (\<lambda>t1_n. Inr (xfrm, flair_n, t1_n))))))))"

subsection \<open>Models and weights\<close>

text \<open>Python's \<^verbatim>\<open>str\<close> of a non-negative integer.\<close>

definition digit :: "nat \<Rightarrow> char" where
  "digit d = ''0123456789'' ! d"

function str :: "nat \<Rightarrow> string" where
  "str n = (if n < 10 then [digit n] else str (n div 10) @ [digit (n mod 10)])"
  by pat_completeness auto
termination
  by (relation "measure id") auto

text \<open>Lines 170 to 172.\<close>

definition number_of_models :: "bool \<Rightarrow> nat" where
  "number_of_models use_ensemble = (if use_ensemble then 3 else 1)"

text \<open>Lines 176 to 194: the weights of model \<open>i\<close>.\<close>

definition wmh_weights ::
  "'m lib \<Rightarrow> nat \<Rightarrow> string option \<Rightarrow> bool \<Rightarrow> nat \<Rightarrow> state \<Rightarrow> string \<times> state" where
  "wmh_weights lib channels output_directory verbose i st =
     (if channels = 1 then
        (case output_directory of
           Some d \<Rightarrow>
             (let weights_file_name = d @ ''sysuMediaWmhFlairOnlyModel'' @ str i @ ''.h5''
              in if weights_file_name \<notin> files st
                 then fetch lib (''sysuMediaWmhFlairOnlyModel'' @ str i) (Some weights_file_name)
                        (say verbose ''White matter hyperintensity:  downloading model weights.'' st)
                 else (weights_file_name, st))
         | None \<Rightarrow> fetch lib (''sysuMediaWmhFlairOnlyModel'' @ str i) None st)
      else
        (case output_directory of
           Some d \<Rightarrow>
             (let weights_file_name = d @ ''sysuMediaWmhFlairT1Model'' @ str i @ ''.h5''
              in if weights_file_name \<notin> files st
                 then fetch lib (''sysuMediaWmhFlairT1Model'' @ str i) (Some weights_file_name)
                        (say verbose ''White matter hyperintensity:  downloading model weights.'' st)
                 else (weights_file_name, st))
         | None \<Rightarrow> fetch lib (''sysuMediaWmhFlairT1Model'' @ str i) None st))"

text \<open>Lines 174 to 197: one model per weight set, appended to the list.\<close>

definition wmh_model_step ::
  "'m lib \<Rightarrow> nat \<Rightarrow> string option \<Rightarrow> bool \<Rightarrow> nat \<Rightarrow> 'm list \<times> state \<Rightarrow> 'm list \<times> state" where
  "wmh_model_step lib channels output_directory verbose i acc =
     (let (unet_models, st) = acc;
          (weights_file_name, st') = wmh_weights lib channels output_directory verbose i st
      in (unet_models @
            [load_weights lib (create_sysu_media_unet_model_2d lib [200, 200, channels])
               weights_file_name],
          st'))"

definition wmh_models ::
  "'m lib \<Rightarrow> nat \<Rightarrow> nat \<Rightarrow> string option \<Rightarrow> bool \<Rightarrow> state \<Rightarrow> 'm list \<times> state" where
  "wmh_models lib channels n output_directory verbose st =
     fold (wmh_model_step lib channels output_directory verbose) [0..<n] ([], st)"

subsection \<open>Slices, prediction and the way back\<close>

text \<open>Lines 205 to 216. A row takes
  \<^verbatim>\<open>pad_or_crop_image_to_size(ants.slice_image(volume, 2, i), (200, 200))\<close> of the
  flair volume, and of the T1 volume when there is one (which is when the number of
  channels is 2).\<close>

definition padded_slice :: "real option image \<Rightarrow> nat \<Rightarrow> error + real option ndarray" where
  "padded_slice volume i =
     ebind (slice_image volume 2 i) (\<lambda>s. pad_or_crop_image_to_size (Some 0) s [200, 200])"

definition wmh_row ::
  "real option image \<Rightarrow> real option image option \<Rightarrow> nat \<Rightarrow> real option ndarray
     \<Rightarrow> error + real option ndarray" where
  "wmh_row flair_w t1_w i b =
     ebind (padded_slice flair_w i) (\<lambda>flair_slice.
     ebind (set_plane b i 0 flair_slice) (\<lambda>b0.
       (case t1_w of
          None \<Rightarrow> Inr b0
        | Some w \<Rightarrow>
            ebind (padded_slice w i) (\<lambda>t1_slice.
            set_plane b0 i 1 t1_slice))))"

definition wmh_batch ::
  "real option image \<Rightarrow> real option image option \<Rightarrow> error + real option ndarray" where
  "wmh_batch flair_w t1_w =
     (let number_of_axial_slices = shape (pixels flair_w) ! 2
      in efold (wmh_row flair_w t1_w) [0..<number_of_axial_slices]
           (np_zeros [number_of_axial_slices, 200, 200,
                      (case t1_w of None \<Rightarrow> 1 | Some w \<Rightarrow> 2)]))"

text \<open>Lines 227 to 231. The in-place sum needs predictions of one shape.\<close>

definition np_add :: "real ndarray \<Rightarrow> real ndarray \<Rightarrow> error + real ndarray" where
  "np_add a b =
     (if shape a = shape b
      then Inr \<lparr>shape = shape a, data = (\<lambda>idx. data a idx + data b idx)\<rparr>
      else Inl (ValueError ''operands could not be broadcast together''))"

definition np_divide_by :: "real ndarray \<Rightarrow> nat \<Rightarrow> real ndarray" where
  "np_divide_by a n = \<lparr>shape = shape a, data = (\<lambda>idx. data a idx / real n)\<rparr>"

definition wmh_prediction ::
  "'m lib \<Rightarrow> 'm list \<Rightarrow> nat \<Rightarrow> real option ndarray \<Rightarrow> error + real ndarray" where
  "wmh_prediction lib unet_models n batchX =
     ebind (efold (\<lambda>i prediction. np_add prediction (predict lib (unet_models ! i) batchX))
              [1..<n] (predict lib (unet_models ! 0) batchX))
       (\<lambda>prediction. Inr (np_divide_by prediction n))"

text \<open>Line 233: \<^verbatim>\<open>np.transpose(np.squeeze(prediction), (1, 2, 0))\<close>.\<close>

fun unsqueeze :: "nat list \<Rightarrow> nat list \<Rightarrow> nat list" where
  "unsqueeze [] idx = []"
| "unsqueeze (d # ds) idx =
     (if d = 1 then 0 # unsqueeze ds idx
      else (case idx of [] \<Rightarrow> [] | j # js \<Rightarrow> j # unsqueeze ds js))"

definition np_squeeze :: "'a ndarray \<Rightarrow> 'a ndarray" where
  "np_squeeze a =
     \<lparr>shape = filter (\<lambda>d. d \<noteq> 1) (shape a), data = (\<lambda>idx. data a (unsqueeze (shape a) idx))\<rparr>"

definition np_transpose_120 :: "'a ndarray \<Rightarrow> error + 'a ndarray" where
  "np_transpose_120 a =
     (if length (shape a) \<noteq> 3 then Inl (ValueError ''axes don't match array'')
      else Inr \<lparr>shape = [shape a ! 1, shape a ! 2, shape a ! 0],
                data = (\<lambda>idx. data a [idx ! 2, idx ! 0, idx ! 1])\<rparr>)"

text \<open>\<^verbatim>\<open>ants.copy_image_info(reference, target)\<close>: the target's pixels under the
  reference's header.\<close>

definition copy_image_info :: "'b image \<Rightarrow> 'a ndarray \<Rightarrow> error + 'a image" where
  "copy_image_info reference target =
     (if length (shape target) \<noteq> dimension reference
      then Inl (LibraryError ''copy_image_info: dimensions differ'')
      else Inr \<lparr>pixels = target, origin = origin reference, spacing = spacing reference,
                direction = direction reference\<rparr>)"

text \<open>Lines 233 to 237: the probability volume in the reference frame, and its image
  under the inverse transform on the grid of the input flair.\<close>

definition wmh_probability_warped :: "real ndarray \<Rightarrow> real option image \<Rightarrow> error + real image" where
  "wmh_probability_warped prediction flair_w =
     ebind (np_transpose_120 (np_squeeze prediction)) (\<lambda>prediction_array.
     ebind (pad_or_crop_image_to_size 0 prediction_array (shape (pixels flair_w)))
       (\<lambda>prediction_image. copy_image_info flair_w prediction_image))"

definition wmh_probability ::
  "'m lib \<Rightarrow> ants_transform \<Rightarrow> real ndarray \<Rightarrow> real option image \<Rightarrow> real image
     \<Rightarrow> error + real image" where
  "wmh_probability lib xfrm prediction flair_w flair =
     ebind (wmh_probability_warped prediction flair_w) (\<lambda>probability_image_warped.
       apply_ants_transform_to_image lib (invert_ants_transform xfrm)
         probability_image_warped flair)"

text \<open>The whole function.\<close>

definition sysu_media_wmh_segmentation ::
  "'m lib \<Rightarrow> real image \<Rightarrow> real image option \<Rightarrow> real image option \<Rightarrow> bool \<Rightarrow> bool
     \<Rightarrow> string option \<Rightarrow> bool \<Rightarrow> state \<Rightarrow> (error + real image) \<times> state" where
  "sysu_media_wmh_segmentation lib flair t1 brain_mask do_preprocessing use_ensemble
       output_directory verbose st =
     (if dimension flair \<noteq> 3 then (Inl (ValueError dimension_message), st)
      else
        (let (flair_preprocessed, t1_preprocessed, st1) =
               wmh_preprocess lib flair t1 do_preprocessing output_directory verbose st;
             (brain_mask_used, st2) = wmh_brain_mask lib flair t1 brain_mask verbose st1
         in (case wmh_volumes lib flair_preprocessed t1_preprocessed brain_mask_used of
               Inl e \<Rightarrow> (Inl e, st2)
             | Inr (xfrm, flair_w, t1_w) \<Rightarrow>
                 (let (unet_models, st3) =
                        wmh_models lib (number_of_channels t1) (number_of_models use_ensemble)
                          output_directory verbose st2;
                      st4 = say verbose ''Extracting slices.'' st3
                  in (case wmh_batch flair_w t1_w of
                        Inl e \<Rightarrow> (Inl e, st4)
                      | Inr batchX \<Rightarrow>
                          (let st5 = say verbose ''Prediction.'' st4
                           in (case ebind (wmh_prediction lib unet_models
                                             (number_of_models use_ensemble) batchX)
                                      (\<lambda>prediction.
                                         wmh_probability lib xfrm prediction flair_w flair) of
                                 Inl e \<Rightarrow> (Inl e, st5)
                               | Inr probability_image \<Rightarrow> (Inr probability_image, st5))))))))"

section \<open>Notions the properties are stated with\<close>

text \<open>An error other than the one of the dimension check.\<close>

definition other_error :: "error \<Rightarrow> bool" where
  "other_error e = (e \<noteq> ValueError dimension_message)"

text \<open>
  The median of data that are not empty: the middle value of the sorted data, and the mean
  of the two middle values when their number is even.
\<close>

definition median :: "real list \<Rightarrow> real" where
  "median xs =
     (if odd (length xs) then sort xs ! (length xs div 2)
      else (sort xs ! (length xs div 2 - 1) + sort xs ! (length xs div 2)) / 2)"

text \<open>
  What makes a value a median of data: at least half of the values are at or below it, and
  at least half are at or above it.
\<close>

definition is_median :: "real list \<Rightarrow> real \<Rightarrow> bool" where
  "is_median xs m =
     (length xs \<le> 2 * length (filter (\<lambda>x. x \<le> m) xs) \<and>
      length xs \<le> 2 * length (filter (\<lambda>x. m \<le> x) xs))"

section \<open>A small world to run the pipelines in\<close>

text \<open>
  An instance of the opaque calls: preprocessing returns its input (and the input as its own
  mask), downloads land at the requested path or under \<^verbatim>\<open>/tmp\<close>, the age model
  answers row \<open>i\<close> with \<open>i\<close>, the segmentation models answer one half everywhere, the
  centre of mass is the origin of the image's space. The volumes have 130 and 100 axial
  slices.
\<close>

definition example_lib :: "unit lib" where
  "example_lib =
     \<lparr>preprocess_brain_image =
        (\<lambda>img args fs. (\<lparr>preprocessed_image = img, result_brain_mask = Some img\<rparr>, fs)),
      get_pretrained_network =
        (\<lambda>name target fs.
           case target of
             Some f \<Rightarrow> (f, insert f fs)
           | None \<Rightarrow> (''/tmp/'' @ name @ ''.h5'', insert (''/tmp/'' @ name @ ''.h5'') fs)),
      load_model = (\<lambda>f. ()),
      create_sysu_media_unet_model_2d = (\<lambda>shp. ()),
      load_weights = (\<lambda>m f. ()),
      predict =
        (\<lambda>m b. if shape b ! 3 = 3
               then \<lparr>shape = [shape b ! 0, 1], data = (\<lambda>idx. real (idx ! 0))\<rparr>
               else \<lparr>shape = [shape b ! 0, 200, 200, 1], data = (\<lambda>idx. 1 / 2)\<rparr>),
      get_mask = (\<lambda>img. img),
      get_center_of_mass = (\<lambda>img. replicate (dimension img) 0),
      interpolate = (\<lambda>img p. 0)\<rparr>"

definition example_volume :: "real image" where
  "example_volume =
     \<lparr>pixels = \<lparr>shape = [2, 2, 130], data = (\<lambda>idx. real (idx ! 2))\<rparr>,
      origin = [0, 0, 0], spacing = [1, 1, 1],
      direction = [[1, 0, 0], [0, 1, 0], [0, 0, 1]]\<rparr>"

definition example_state :: state where
  "example_state = \<lparr>files = {}, trace = []\<rparr>"

definition example_short_volume :: "real image" where
  "example_short_volume =
     \<lparr>pixels = \<lparr>shape = [2, 2, 100], data = (\<lambda>idx. real (idx ! 2))\<rparr>,
      origin = [0, 0, 0], spacing = [1, 1, 1],
      direction = [[1, 0, 0], [0, 1, 0], [0, 0, 1]]\<rparr>"

text \<open>A two-dimensional image.\<close>

definition example_plane :: "real image" where
  "example_plane =
     \<lparr>pixels = \<lparr>shape = [2, 2], data = (\<lambda>idx. 1)\<rparr>,
      origin = [0, 0], spacing = [1, 1], direction = [[1, 0], [0, 1]]\<rparr>"

section \<open>Lemmas: errors as values, and the batch of brain_age\<close>

lemma ebind_Inr_iff: "ebind m f = Inr y \<longleftrightarrow> (\<exists>x. m = Inr x \<and> f x = Inr y)"
  by (cases m) (simp_all add: ebind_def)

lemma ebind_Inr [simp]: "ebind (Inr x) f = f x"
  by (simp add: ebind_def)

lemma ebind_Inl [simp]: "ebind (Inl e) f = Inl e"
  by (simp add: ebind_def)

lemma which_slices_nth: "i < 80 \<Longrightarrow> which_slices ! i = 45 + i"
  unfolding which_slices_def using nth_upt[of 45 i 125] by (simp del: upt_rec_numeral)

lemma length_which_slices: "length which_slices = 80"
  unfolding which_slices_def by (simp del: upt_rec_numeral)

lemma slice_image_axis2:
  assumes "dimension t = 3" "k < shape (pixels t) ! 2"
  shows "slice_image t 2 k =
    Inr \<lparr>shape = take 2 (shape (pixels t)), data = (\<lambda>j. data (pixels t) (insert_at 2 k j))\<rparr>"
proof -
  from assms(1) have "length (shape (pixels t)) = 3" by (simp add: dimension_def)
  then have "remove_at 2 (shape (pixels t)) = take 2 (shape (pixels t))"
    by (simp add: remove_at_def)
  with assms show ?thesis by (simp add: slice_image_def)
qed

lemma slice_image_out_of_range:
  assumes "dimension t = 3" "shape (pixels t) ! 2 \<le> k"
  shows "slice_image t 2 k = Inl (LibraryError ''slice_image: index out of range'')"
  using assms by (simp add: slice_image_def)

lemma shape3: "length s = 3 \<Longrightarrow> take 2 s = [s ! 0, s ! 1]"
  by (cases s; cases "tl s"; cases "tl (tl s)") auto

lemma brain_age_row_ok:
  assumes dim: "dimension t = 3" and deep: "46 + i < shape (pixels t) ! 2" and i: "i < 80"
    and b: "shape b = [80, shape (pixels t) ! 0, shape (pixels t) ! 1, 3]"
  shows "\<exists>b'. brain_age_row t i b = Inr b' \<and> shape b' = shape b \<and>
     (\<forall>idx. data b' idx =
        (if length idx = 4 \<and> idx ! 0 = i \<and> idx ! 3 < 3
         then data (pixels t) [idx ! 1, idx ! 2, 44 + i + idx ! 3] else data b idx))"
proof -
  have len: "length (shape (pixels t)) = 3" using dim by (simp add: dimension_def)
  have tk: "take 2 (shape (pixels t)) = [shape (pixels t) ! 0, shape (pixels t) ! 1]"
    by (rule shape3[OF len])
  have s0: "slice_image t 2 (which_slices ! i - 1) = Inr \<lparr>shape = take 2 (shape (pixels t)), data = (\<lambda>j. data (pixels t) (insert_at 2 (44 + i) j))\<rparr>"
    using slice_image_axis2[OF dim, of "44 + i"] deep i by (simp add: which_slices_nth)
  have s1: "slice_image t 2 (which_slices ! i) = Inr \<lparr>shape = take 2 (shape (pixels t)), data = (\<lambda>j. data (pixels t) (insert_at 2 (45 + i) j))\<rparr>"
    using slice_image_axis2[OF dim, of "45 + i"] deep i by (simp add: which_slices_nth)
  have s2: "slice_image t 2 (which_slices ! i + 1) = Inr \<lparr>shape = take 2 (shape (pixels t)), data = (\<lambda>j. data (pixels t) (insert_at 2 (46 + i) j))\<rparr>"
    using slice_image_axis2[OF dim, of "46 + i"] deep i by (simp add: which_slices_nth)
  have cases3: "\<And>c::nat. c < 3 \<longleftrightarrow> c = 0 \<or> c = 1 \<or> c = 2" by auto
  show ?thesis
    unfolding brain_age_row_def s0 s1 s2 
    using i b by (auto simp add: set_plane_def tk insert_at_def cases3)
qed


lemma efold_member_ok:
  "efold f xs s = Inr s' \<Longrightarrow> x \<in> set xs \<Longrightarrow> \<exists>a a'. f x a = Inr a'"
proof (induction xs arbitrary: s)
  case Nil
  then show ?case by simp
next
  case (Cons y ys)
  from Cons.prems(1) obtain s1 where s1: "f y s = Inr s1" and rest: "efold f ys s1 = Inr s'"
    by (auto split: sum.splits)
  show ?case
  proof (cases "x = y")
    case True
    with s1 show ?thesis by blast
  next
    case False
    with Cons.prems(2) have "x \<in> set ys" by simp
    from Cons.IH[OF rest this] show ?thesis .
  qed
qed

lemma brain_age_fill_ok:
  assumes dim: "dimension t = 3"
  shows "(\<forall>i\<in>set js. i < 80 \<and> 46 + i < shape (pixels t) ! 2) \<Longrightarrow>
     shape b = [80, shape (pixels t) ! 0, shape (pixels t) ! 1, 3] \<Longrightarrow>
     \<exists>b'. efold (brain_age_row t) js b = Inr b' \<and> shape b' = shape b \<and>
       (\<forall>idx. data b' idx =
          (if length idx = 4 \<and> idx ! 0 \<in> set js \<and> idx ! 3 < 3
           then data (pixels t) [idx ! 1, idx ! 2, 44 + idx ! 0 + idx ! 3] else data b idx))"
proof (induction js arbitrary: b)
  case Nil
  then show ?case by simp
next
  case (Cons j js)
  from Cons.prems have j: "j < 80" and deep: "46 + j < shape (pixels t) ! 2"
    and js: "\<forall>i\<in>set js. i < 80 \<and> 46 + i < shape (pixels t) ! 2" by auto
  from brain_age_row_ok[OF dim deep j Cons.prems(2)]
  obtain b1 where b1: "brain_age_row t j b = Inr b1" "shape b1 = shape b"
    and d1: "\<And>idx. data b1 idx =
        (if length idx = 4 \<and> idx ! 0 = j \<and> idx ! 3 < 3
         then data (pixels t) [idx ! 1, idx ! 2, 44 + j + idx ! 3] else data b idx)"
    by blast
  from b1(2) Cons.prems(2) have sh1: "shape b1 = [80, shape (pixels t) ! 0, shape (pixels t) ! 1, 3]"
    by simp
  from Cons.IH[OF js sh1]
  obtain b' where b': "efold (brain_age_row t) js b1 = Inr b'" "shape b' = shape b1"
    and d': "\<And>idx. data b' idx =
          (if length idx = 4 \<and> idx ! 0 \<in> set js \<and> idx ! 3 < 3
           then data (pixels t) [idx ! 1, idx ! 2, 44 + idx ! 0 + idx ! 3] else data b1 idx)"
    by blast
  have "efold (brain_age_row t) (j # js) b = Inr b'" using b1(1) b'(1) by simp
  moreover have "shape b' = shape b" using b'(2) b1(2) by simp
  moreover have "\<forall>idx. data b' idx =
          (if length idx = 4 \<and> idx ! 0 \<in> set (j # js) \<and> idx ! 3 < 3
           then data (pixels t) [idx ! 1, idx ! 2, 44 + idx ! 0 + idx ! 3] else data b idx)"
    by (simp add: d' d1)
  ultimately show ?case by blast
qed

lemma brain_age_batch_ok:
  assumes dim: "dimension t = 3" and deep: "126 \<le> shape (pixels t) ! 2"
  shows "\<exists>b. brain_age_batch t = Inr b \<and>
      shape b = [80, shape (pixels t) ! 0, shape (pixels t) ! 1, 3] \<and>
      (\<forall>i x y c. i < 80 \<longrightarrow> c < 3 \<longrightarrow> data b [i, x, y, c] = data (pixels t) [x, y, 44 + i + c])"
proof -
  have len: "length (shape (pixels t)) = 3" using dim by (simp add: dimension_def)
  let ?b0 = "np_zeros (length which_slices # take 2 (shape (pixels t)) @ [3])"
  have sh0: "shape ?b0 = [80, shape (pixels t) ! 0, shape (pixels t) ! 1, 3]"
    by (simp add: np_zeros_def length_which_slices shape3[OF len])
  have rng: "\<forall>i\<in>set [0..<80]. i < 80 \<and> 46 + i < shape (pixels t) ! 2"
    using deep by (simp del: upt_rec_numeral)
  from brain_age_fill_ok[OF dim rng sh0]
  obtain b where b: "efold (brain_age_row t) [0..<80] ?b0 = Inr b" "shape b = shape ?b0"
    and d: "\<And>idx. data b idx =
          (if length idx = 4 \<and> idx ! 0 \<in> set [0..<80] \<and> idx ! 3 < 3
           then data (pixels t) [idx ! 1, idx ! 2, 44 + idx ! 0 + idx ! 3] else data ?b0 idx)"
    by blast
  have "brain_age_batch t = Inr b"
    using b(1) by (simp add: brain_age_batch_def length_which_slices del: upt_rec_numeral)
  moreover have "shape b = [80, shape (pixels t) ! 0, shape (pixels t) ! 1, 3]"
    using b(2) sh0 by simp
  moreover have "\<forall>i x y c. i < 80 \<longrightarrow> c < 3 \<longrightarrow> data b [i, x, y, c] = data (pixels t) [x, y, 44 + i + c]"
    by (simp add: d del: upt_rec_numeral)
  ultimately show ?thesis by blast
qed

lemma slice_image_Inr_D:
  "slice_image t axis k = Inr s \<Longrightarrow>
     3 \<le> dimension t \<and> axis < dimension t \<and> k < shape (pixels t) ! axis \<and>
     shape s = remove_at axis (shape (pixels t))"
  by (auto simp: slice_image_def split: if_splits)

lemma set_plane_Inr_D:
  "set_plane b i c s = Inr b' \<Longrightarrow> shape s = [shape b ! 1, shape b ! 2] \<and> shape b' = shape b"
  by (auto simp: set_plane_def split: if_splits)

lemma brain_age_row_Inr_D:
  assumes "brain_age_row t i b = Inr b'" "i < 80"
  shows "length (shape (pixels t)) - 1 = 2 \<and> 3 \<le> dimension t \<and> 46 + i < shape (pixels t) ! 2"
proof -
  from assms(1) obtain s0 b0 s2 where
    s0: "slice_image t 2 (which_slices ! i - 1) = Inr s0" and p0: "set_plane b i 0 s0 = Inr b0"
    and s2: "slice_image t 2 (which_slices ! i + 1) = Inr s2"
    unfolding brain_age_row_def ebind_Inr_iff by blast
  from slice_image_Inr_D[OF s0] have d3: "3 \<le> dimension t"
    and sh: "shape s0 = remove_at 2 (shape (pixels t))" by auto
  from set_plane_Inr_D[OF p0] have "length (shape s0) = 2" by simp
  with sh d3 have "length (shape (pixels t)) - 1 = 2"
    by (simp add: remove_at_def dimension_def)
  moreover from slice_image_Inr_D[OF s2] have "46 + i < shape (pixels t) ! 2"
    using assms(2) by (simp add: which_slices_nth)
  ultimately show ?thesis using d3 by simp
qed

lemma brain_age_batch_Inr_D:
  assumes "brain_age_batch t = Inr b"
  shows "dimension t = 3 \<and> 126 \<le> shape (pixels t) ! 2"
proof -
  from assms have ef: "efold (brain_age_row t) [0..<80]
       (np_zeros (length which_slices # take 2 (shape (pixels t)) @ [3])) = Inr b"
    by (simp add: brain_age_batch_def length_which_slices del: upt_rec_numeral)
  have "(79::nat) \<in> set [0..<80]" by (simp del: upt_rec_numeral)
  from efold_member_ok[OF ef this] obtain a a' where "brain_age_row t 79 a = Inr a'" by blast
  from brain_age_row_Inr_D[OF this] show ?thesis by (auto simp add: dimension_def)
qed

lemma brain_age_batch_Inr_iff:
  "(\<exists>b. brain_age_batch t = Inr b) \<longleftrightarrow> dimension t = 3 \<and> 126 \<le> shape (pixels t) ! 2"
  using brain_age_batch_ok[of t] brain_age_batch_Inr_D[of t] by blast

section \<open>Lemmas: indices, minimum and maximum, the median\<close>

lemma set_all_indices: "set (all_indices shp) = {idx. list_all2 (<) idx shp}"
proof (induction shp)
  case Nil
  then show ?case by auto
next
  case (Cons n ns)
  show ?case
  proof (rule set_eqI)
    fix idx
    show "idx \<in> set (all_indices (n # ns)) \<longleftrightarrow> idx \<in> {idx. list_all2 (<) idx (n # ns)}"
      using Cons.IH by (auto simp: list_all2_Cons2)
  qed
qed

lemma valid_index_all_indices: "valid_index shp idx \<longleftrightarrow> idx \<in> set (all_indices shp)"
  by (simp add: set_all_indices valid_index_def)

lemma all_indices_empty_iff: "all_indices shp = [] \<longleftrightarrow> 0 \<in> set shp"
proof (induction shp)
  case Nil
  then show ?case by simp
next
  case (Cons n ns)
  show ?case
  proof (cases "n = 0")
    case True
    then show ?thesis by simp
  next
    case False
    then have "0 \<in> set [0..<n]" by simp
    with False Cons.IH show ?thesis by auto
  qed
qed

lemma voxels_empty_iff: "voxels a = [] \<longleftrightarrow> 0 \<in> set (shape a)"
  by (simp add: voxels_def all_indices_empty_iff)

lemma set_voxels: "set (voxels a) = data a ` {idx. valid_index (shape a) idx}"
  by (simp add: voxels_def set_all_indices valid_index_def)

lemma fold_min_Min: "fold min vs (v::real) = Min (set (v # vs))"
  by (simp only: Min.set_eq_fold)

lemma fold_max_Max: "fold max vs (v::real) = Max (set (v # vs))"
  by (simp only: Max.set_eq_fold)

lemma np_min_ok:
  "voxels a \<noteq> [] \<Longrightarrow> np_min a = Inr (Min (set (voxels a)))"
  by (cases "voxels a") (simp_all add: np_min_def fold_min_Min)

lemma np_max_ok:
  "voxels a \<noteq> [] \<Longrightarrow> np_max a = Inr (Max (set (voxels a)))"
  by (cases "voxels a") (simp_all add: np_max_def fold_max_Max)

lemma brain_age_normalize_ok:
  assumes "voxels (pixels t) \<noteq> []"
  shows "brain_age_normalize t =
     Inr (image_map (\<lambda>v. np_div (v - Min (set (voxels (pixels t))))
                         (Max (set (voxels (pixels t))) - Min (set (voxels (pixels t))))) t)"
  using assms by (simp add: brain_age_normalize_def np_min_ok np_max_ok)

lemma brain_age_normalize_Inr_D:
  "brain_age_normalize t = Inr tn \<Longrightarrow> voxels (pixels t) \<noteq> [] \<and> shape (pixels tn) = shape (pixels t)"
  by (cases "voxels (pixels t)")
     (auto simp: brain_age_normalize_def np_min_def np_max_def image_map_def ebind_def)

lemma image_map_simps [simp]:
  "shape (pixels (image_map f t)) = shape (pixels t)"
  "data (pixels (image_map f t)) idx = f (data (pixels t) idx)"
  "origin (image_map f t) = origin t"
  "spacing (image_map f t) = spacing t"
  "direction (image_map f t) = direction t"
  "dimension (image_map f t) = dimension t"
  by (simp_all add: image_map_def dimension_def)

lemma length_filter_sort: "length (filter P (sort xs)) = length (filter P xs)"
  by (simp add: filter_sort)

lemma count_le_sorted:
  fixes d :: "real list"
  assumes "sorted d" "i < length d" "d ! i \<le> m"
  shows "Suc i \<le> length (filter (\<lambda>x. x \<le> m) d)"
proof -
  have "\<forall>x\<in>set (take (Suc i) d). x \<le> m"
  proof
    fix x assume "x \<in> set (take (Suc i) d)"
    then obtain k where k: "k < Suc i" "k < length d" "x = d ! k"
      by (auto simp: in_set_conv_nth)
    with assms(1,2) have "d ! k \<le> d ! i" by (intro sorted_nth_mono) auto
    with k assms(3) show "x \<le> m" by simp
  qed
  then have "filter (\<lambda>x. x \<le> m) (take (Suc i) d) = take (Suc i) d" by simp
  moreover have "filter (\<lambda>x. x \<le> m) d =
      filter (\<lambda>x. x \<le> m) (take (Suc i) d) @ filter (\<lambda>x. x \<le> m) (drop (Suc i) d)"
    by (metis append_take_drop_id filter_append)
  ultimately show ?thesis using assms(2) by simp
qed

lemma count_ge_sorted:
  fixes d :: "real list"
  assumes "sorted d" "i < length d" "m \<le> d ! i"
  shows "length d - i \<le> length (filter (\<lambda>x. m \<le> x) d)"
proof -
  have "\<forall>x\<in>set (drop i d). m \<le> x"
  proof
    fix x assume "x \<in> set (drop i d)"
    then obtain k where k: "k < length d - i" "x = d ! (i + k)"
      by (auto simp: in_set_conv_nth)
    with assms(1,2) have "d ! i \<le> d ! (i + k)" by (intro sorted_nth_mono) auto
    with k assms(3) show "m \<le> x" by simp
  qed
  then have "filter (\<lambda>x. m \<le> x) (drop i d) = drop i d" by simp
  moreover have "filter (\<lambda>x. m \<le> x) d =
      filter (\<lambda>x. m \<le> x) (take i d) @ filter (\<lambda>x. m \<le> x) (drop i d)"
    by (metis append_take_drop_id filter_append)
  ultimately show ?thesis by simp
qed

lemma statistics_median_is_median:
  assumes "statistics_median xs = Inr m"
  shows "is_median xs m"
proof -
  let ?d = "sort xs" and ?n = "length xs"
  have n: "?n \<noteq> 0" using assms by (auto simp: statistics_median_def Let_def)
  have sd: "sorted ?d" and ld: "length ?d = ?n" by simp_all
  have "\<exists>i j. i < ?n \<and> j < ?n \<and> ?d ! i \<le> m \<and> m \<le> ?d ! j \<and> ?n \<le> 2 * Suc i \<and> ?n \<le> 2 * (?n - j)"
  proof (cases "?n mod 2 = 1")
    case True
    with assms n have m: "m = ?d ! (?n div 2)"
      by (auto simp: statistics_median_def Let_def split: if_splits)
    have "?n div 2 < ?n" using n by simp
    moreover have "?n \<le> 2 * Suc (?n div 2)" by presburger
    moreover have "?n \<le> 2 * (?n - ?n div 2)" by presburger
    ultimately show ?thesis using m by (intro exI[of _ "?n div 2"]) simp
  next
    case False
    with assms n have m: "m = (?d ! (?n div 2 - 1) + ?d ! (?n div 2)) / 2"
      by (auto simp: statistics_median_def Let_def split: if_splits)
    from False n have ev: "?n = 2 * (?n div 2)" "0 < ?n div 2" by presburger+
    have lt: "?n div 2 - 1 < ?n" "?n div 2 < ?n" using ev(2) by presburger+
    have "?d ! (?n div 2 - 1) \<le> ?d ! (?n div 2)"
      using sd lt ld by (intro sorted_nth_mono) auto
    with m have "?d ! (?n div 2 - 1) \<le> m" "m \<le> ?d ! (?n div 2)" by simp_all
    moreover have "?n \<le> 2 * Suc (?n div 2 - 1)" using False ev(2) by presburger
    moreover have "?n \<le> 2 * (?n - ?n div 2)" by presburger
    ultimately show ?thesis using lt by blast
  qed
  then obtain i j where ij: "i < ?n" "j < ?n" "?d ! i \<le> m" "m \<le> ?d ! j"
    "?n \<le> 2 * Suc i" "?n \<le> 2 * (?n - j)" by blast
  from count_le_sorted[OF sd _ ij(3)] ij(1) ld
  have "Suc i \<le> length (filter (\<lambda>x. x \<le> m) xs)" by (simp add: length_filter_sort)
  moreover from count_ge_sorted[OF sd _ ij(4)] ij(2) ld
  have "?n - j \<le> length (filter (\<lambda>x. m \<le> x) xs)" by (simp add: length_filter_sort)
  ultimately show ?thesis using ij(5,6) by (simp add: is_median_def)
qed

section \<open>Lemmas: where the errors of brain_age come from, and its runs\<close>

lemma ebind_Inl_iff: "ebind m f = Inl e \<longleftrightarrow> m = Inl e \<or> (\<exists>x. m = Inr x \<and> f x = Inl e)"
  by (cases m) (simp_all add: ebind_def)

lemma efold_Inl_D:
  assumes "\<And>x s e. f x s = Inl e \<Longrightarrow> P e"
  shows "efold f xs s = Inl e \<Longrightarrow> P e"
proof (induction xs arbitrary: s)
  case Nil
  then show ?case by simp
next
  case (Cons x xs)
  then show ?case using assms by (auto split: sum.splits)
qed

lemma other_error_simps [simp]:
  "other_error (LibraryError m)" "other_error (IndexError m)" "other_error (KeyError m)"
  "other_error (TypeError m)"
  "other_error (ValueError m) \<longleftrightarrow> m \<noteq> ''Image dimension must be 3.''"
  by (simp_all add: other_error_def dimension_message_def)

lemma slice_image_Inl_D: "slice_image t axis k = Inl e \<Longrightarrow> other_error e"
  by (auto simp: slice_image_def split: if_splits)

lemma set_plane_Inl_D: "set_plane b i c s = Inl e \<Longrightarrow> other_error e"
  by (auto simp: set_plane_def split: if_splits)

lemma brain_age_row_Inl_D: "brain_age_row t i b = Inl e \<Longrightarrow> other_error e"
  unfolding brain_age_row_def ebind_Inl_iff
  by (blast dest: slice_image_Inl_D set_plane_Inl_D)

lemma brain_age_batch_Inl_D: "brain_age_batch t = Inl e \<Longrightarrow> other_error e"
  unfolding brain_age_batch_def by (rule efold_Inl_D[of "brain_age_row t"]) (rule brain_age_row_Inl_D)

lemma image_mul_Inl_D: "image_mul a b = Inl e \<Longrightarrow> other_error e"
  by (auto simp: image_mul_def split: if_splits)

lemma brain_age_preprocess_Inl_D:
  "brain_age_preprocess lib t1 dp od v st = (Inl e, st1) \<Longrightarrow> other_error e"
  by (auto simp: brain_age_preprocess_def Let_def split: if_splits prod.splits option.splits
      dest: image_mul_Inl_D)

lemma brain_age_normalize_Inl_D: "brain_age_normalize t = Inl e \<Longrightarrow> other_error e"
  by (cases "voxels (pixels t)")
     (auto simp: brain_age_normalize_def np_min_def np_max_def ebind_def)

lemma statistics_median_Inl_D: "statistics_median xs = Inl e \<Longrightarrow> other_error e"
  by (auto simp: statistics_median_def Let_def split: if_splits)

lemma median_index0_Inl_D: "median_index0 a = Inl e \<Longrightarrow> other_error e"
  by (auto simp: median_index0_def Let_def ebind_Inl_iff split: if_splits
      dest: statistics_median_Inl_D)

lemma brain_age_dimension_error:
  "dimension t1 \<noteq> 3 \<Longrightarrow> brain_age lib t1 dp od v st = (Inl (ValueError dimension_message), st)"
  by (simp add: brain_age_def)

lemma brain_age_Inl_D:
  assumes "dimension t1 = 3" "brain_age lib t1 dp od v st = (Inl e, st')"
  shows "other_error e"
  using assms
  by (auto simp: brain_age_def Let_def split: prod.splits sum.splits
      dest: brain_age_preprocess_Inl_D brain_age_normalize_Inl_D brain_age_batch_Inl_D
        median_index0_Inl_D)

lemma brain_age_Inr_D:
  assumes "brain_age lib t1 dp od v st = (Inr r, st')"
  shows "dimension t1 = 3 \<and>
    (\<exists>tp st1 tn f st2 b.
       brain_age_preprocess lib t1 dp od v st = (Inr tp, st1) \<and>
       brain_age_normalize tp = Inr tn \<and>
       brain_age_weights lib od v st1 = (f, st2) \<and>
       brain_age_batch tn = Inr b \<and>
       st' = say v ''Brain age (DeepBrainNet):  predicting brain age per slice.'' st2 \<and>
       brain_age_per_slice r = predict lib (load_model lib f) b \<and>
       median_index0 (brain_age_per_slice r) = Inr (predicted_age r))"
  using assms
  by (auto simp: brain_age_def Let_def split: if_splits prod.splits sum.splits)

lemma brain_age_run:
  assumes "dimension t1 = 3"
    and "brain_age_preprocess lib t1 dp od v st = (Inr tp, st1)"
    and "brain_age_normalize tp = Inr tn"
    and "brain_age_weights lib od v st1 = (f, st2)"
    and "brain_age_batch tn = Inr b"
    and "median_index0 (predict lib (load_model lib f) b) = Inr a"
  shows "brain_age lib t1 dp od v st =
    (Inr \<lparr>predicted_age = a, brain_age_per_slice = predict lib (load_model lib f) b\<rparr>,
     say v ''Brain age (DeepBrainNet):  predicting brain age per slice.'' st2)"
  using assms by (simp add: brain_age_def Let_def)

lemma brain_age_run_batch_error:
  assumes "dimension t1 = 3"
    and "brain_age_preprocess lib t1 dp od v st = (Inr tp, st1)"
    and "brain_age_normalize tp = Inr tn"
    and "brain_age_batch tn = Inl e"
  shows "fst (brain_age lib t1 dp od v st) = Inl e"
  using assms by (simp add: brain_age_def Let_def split: prod.splits)

section \<open>Lemmas: volumes with too few slices\<close>

lemma efold_append: "efold f (xs @ ys) s = ebind (efold f xs s) (efold f ys)"
  by (induction xs arbitrary: s) (auto simp: ebind_def split: sum.splits)

lemma set_plane_ok:
  assumes "shape b = [n, h, w, k]" "i < n" "c < k" "shape s = [h, w]"
  shows "set_plane b i c s =
     Inr \<lparr>shape = shape b,
          data = (\<lambda>idx. if length idx = 4 \<and> idx ! 0 = i \<and> idx ! 3 = c
                         then data s [idx ! 1, idx ! 2] else data b idx)\<rparr>"
  using assms by (simp add: set_plane_def)

lemma brain_age_row_out_of_range:
  assumes dim: "dimension t = 3" and i: "i < 80"
    and short: "shape (pixels t) ! 2 \<le> 46 + i"
    and b: "shape b = [80, shape (pixels t) ! 0, shape (pixels t) ! 1, 3]"
  shows "brain_age_row t i b = Inl (LibraryError ''slice_image: index out of range'')"
proof -
  have len: "length (shape (pixels t)) = 3" using dim by (simp add: dimension_def)
  have tk: "take 2 (shape (pixels t)) = [shape (pixels t) ! 0, shape (pixels t) ! 1]"
    by (rule shape3[OF len])
  have ws: "which_slices ! i - 1 = 44 + i" "which_slices ! i = 45 + i" "which_slices ! i + 1 = 46 + i"
    using i by (simp_all add: which_slices_nth)
  consider "shape (pixels t) ! 2 \<le> 44 + i"
    | "44 + i < shape (pixels t) ! 2" "shape (pixels t) ! 2 \<le> 45 + i"
    | "45 + i < shape (pixels t) ! 2"
    by linarith
  then show ?thesis
  proof cases
    case 1
    then show ?thesis
      unfolding brain_age_row_def ws by (simp add: slice_image_out_of_range[OF dim])
  next
    case 2
    then show ?thesis
      unfolding brain_age_row_def ws using i b
      by (simp add: slice_image_out_of_range[OF dim] slice_image_axis2[OF dim] tk set_plane_def)
  next
    case 3
    then have "44 + i < shape (pixels t) ! 2" by simp
    with 3 short show ?thesis
      unfolding brain_age_row_def ws using i b
      by (simp add: slice_image_out_of_range[OF dim] slice_image_axis2[OF dim] tk set_plane_def)
  qed
qed

lemma brain_age_batch_out_of_range:
  assumes dim: "dimension t = 3" and short: "shape (pixels t) ! 2 < 126"
  shows "brain_age_batch t = Inl (LibraryError ''slice_image: index out of range'')"
proof -
  have len: "length (shape (pixels t)) = 3" using dim by (simp add: dimension_def)
  let ?b0 = "np_zeros (length which_slices # take 2 (shape (pixels t)) @ [3])"
  let ?n = "shape (pixels t) ! 2"
  define k where "k = ?n - 46"
  have k: "k < 80" "?n \<le> 46 + k" using short by (simp_all add: k_def)
  have sh0: "shape ?b0 = [80, shape (pixels t) ! 0, shape (pixels t) ! 1, 3]"
    by (simp add: np_zeros_def length_which_slices shape3[OF len])
  have split: "[0..<80] = [0..<k] @ k # [Suc k..<80]"
    using k(1) by (metis less_imp_le_nat upt_add_eq_append upt_conv_Cons le0 le_add_diff_inverse)
  have "\<forall>i\<in>set [0..<k]. i < 80 \<and> 46 + i < ?n" using k(1) by (auto simp: k_def)
  from brain_age_fill_ok[OF dim this sh0]
  obtain b where b: "efold (brain_age_row t) [0..<k] ?b0 = Inr b" "shape b = shape ?b0" by blast
  have "brain_age_row t k b = Inl (LibraryError ''slice_image: index out of range'')"
    using brain_age_row_out_of_range[OF dim k(1) k(2)] b(2) sh0 by simp
  then have "efold (brain_age_row t) [0..<80] ?b0 = Inl (LibraryError ''slice_image: index out of range'')"
    unfolding split efold_append b(1) by simp
  then show ?thesis
    by (simp add: brain_age_batch_def length_which_slices del: upt_rec_numeral)
qed

lemma set_brain_age_slice_indices: "set brain_age_slice_indices = {44..125}"
proof -
  have "set brain_age_slice_indices = (\<Union>i\<in>{0..<80}. {44 + i, 45 + i, 46 + i})"
    unfolding brain_age_slice_indices_def length_which_slices
    by (auto simp add: which_slices_nth simp del: upt_rec_numeral)
  also have "\<dots> = {44..125}"
  proof (rule set_eqI)
    fix x :: nat
    show "x \<in> (\<Union>i\<in>{0..<80}. {44 + i, 45 + i, 46 + i}) \<longleftrightarrow> x \<in> {44..125}"
    proof
      assume "x \<in> (\<Union>i\<in>{0..<80}. {44 + i, 45 + i, 46 + i})"
      then show "x \<in> {44..125}" by auto
    next
      assume x: "x \<in> {44..125}"
      show "x \<in> (\<Union>i\<in>{0..<80}. {44 + i, 45 + i, 46 + i})"
      proof (cases "x \<le> 123")
        case True
        with x have "x - 44 \<in> {0..<80}" "x = 44 + (x - 44)" by auto
        then show ?thesis by blast
      next
        case False
        with x have "x - 46 \<in> {0..<80}" "x = 46 + (x - 46)" by auto
        then show ?thesis by blast
      qed
    qed
  qed
  finally show ?thesis .
qed

lemma statistics_median_eq:
  "xs \<noteq> [] \<Longrightarrow> statistics_median xs =
     Inr (if length xs mod 2 = 1 then sort xs ! (length xs div 2)
          else (sort xs ! (length xs div 2 - 1) + sort xs ! (length xs div 2)) / 2)"
proof -
  assume "xs \<noteq> []"
  then have "sort xs \<noteq> []" by (metis length_0_conv length_sort)
  then show ?thesis by (simp add: statistics_median_def Let_def)
qed

lemma statistics_median_ok: "xs \<noteq> [] \<Longrightarrow> \<exists>m. statistics_median xs = Inr m"
  using statistics_median_eq by blast

lemma statistics_median_median:
  "xs \<noteq> [] \<Longrightarrow> statistics_median xs = Inr (median xs)"
  by (simp add: statistics_median_eq median_def odd_iff_mod_2_eq_one)

lemma statistics_median_Inr_D:
  "statistics_median xs = Inr m \<Longrightarrow> xs \<noteq> [] \<and> m = median xs"
proof -
  assume m: "statistics_median xs = Inr m"
  then have "xs \<noteq> []" by (auto simp: statistics_median_def Let_def)
  with m statistics_median_median[of xs] show ?thesis by simp
qed

lemma median_singleton: "median [x] = x"
  by (simp add: median_def)

lemma median_index0_single_element_rows:
  assumes m: "median_index0 a = Inr m" and sh: "shape a = n # k # rest"
    and one: "prod_list (k # rest) = 1"
  shows "0 < n \<and> shape m = rest \<and>
     data m (replicate (length rest) 0) =
       median (map (\<lambda>i. data a (i # replicate (Suc (length rest)) 0)) [0..<n])"
proof -
  from m sh have n: "n \<noteq> 0" by (auto simp: median_index0_def split: if_splits)
  from one have k: "k \<noteq> 0" by auto
  show ?thesis
  proof (cases "n = 1")
    case True
    with m sh k have "m = \<lparr>shape = rest, data = (\<lambda>idx. data a (0 # 0 # idx))\<rparr>"
      by (simp add: median_index0_def Let_def)
    with True show ?thesis by (simp add: median_singleton)
  next
    case False
    with m sh n one obtain v where
      v: "statistics_median (map (\<lambda>i. data a (i # replicate (Suc (length rest)) 0)) [0..<n])
            = Inr v"
      and mv: "m = \<lparr>shape = rest, data = (\<lambda>idx. v)\<rparr>"
      by (auto simp: median_index0_def Let_def ebind_Inr_iff)
    from statistics_median_Inr_D[OF v] mv n show ?thesis by simp
  qed
qed

lemma median_index0_column:
  assumes "median_index0 a = Inr m" "shape a = [n, 1]"
  shows "0 < n \<and> shape m = [] \<and> data m [] = median (map (\<lambda>i. data a [i, 0]) [0..<n])"
  using median_index0_single_element_rows[OF assms(1), of n 1 "[]"] assms(2) by simp

lemma median_index0_column_ok:
  assumes "shape a = [n, 1]" "0 < n"
  shows "\<exists>m. median_index0 a = Inr m"
proof (cases "n = 1")
  case True
  with assms show ?thesis by (simp add: median_index0_def Let_def)
next
  case False
  with assms have "map (\<lambda>i. data a [i, 0]) [0..<n] \<noteq> []" by simp
  from statistics_median_ok[OF this] False assms show ?thesis
    by (auto simp: median_index0_def Let_def)
qed

lemma median_is_median: "xs \<noteq> [] \<Longrightarrow> is_median xs (median xs)"
  by (rule statistics_median_is_median) (rule statistics_median_median)

lemma median_of_80:
  "length xs = 80 \<Longrightarrow> median xs = (sort xs ! 39 + sort xs ! 40) / 2"
  by (simp add: median_def)

section \<open>The claims about brain_age\<close>

text \<open>
  Claim C5. For a three-dimensional preprocessed volume with at least 126 axial slices (and
  its normalisation), the batch that \<^verbatim>\<open>brain_age\<close> builds has the shape
  \<open>(80, d0, d1, 3)\<close>, where \<open>d0\<close> and \<open>d1\<close> are the first two extents of the
  preprocessed volume; channel \<open>c\<close> of row \<open>i\<close> is the axial slice \<open>44 + i + c\<close> of
  the normalised volume, so the row is centred on slice \<open>45 + i\<close> with its neighbours
  before and after.
\<close>

theorem brain_age_batch_shape_and_channels:
  assumes "brain_age_normalize t1_preprocessed = Inr t1_normalized"
    and "dimension t1_preprocessed = 3"
    and "126 \<le> shape (pixels t1_preprocessed) ! 2"
  shows "\<exists>batchX. brain_age_batch t1_normalized = Inr batchX \<and>
     shape batchX = [80, shape (pixels t1_preprocessed) ! 0, shape (pixels t1_preprocessed) ! 1, 3] \<and>
     (\<forall>i x y c. i < 80 \<longrightarrow> c < 3 \<longrightarrow>
        data batchX [i, x, y, c] = data (pixels t1_normalized) [x, y, 44 + i + c])"
proof -
  from brain_age_normalize_Inr_D[OF assms(1)]
  have sh: "shape (pixels t1_normalized) = shape (pixels t1_preprocessed)" by simp
  with assms(2,3) have "dimension t1_normalized = 3" "126 \<le> shape (pixels t1_normalized) ! 2"
    by (simp_all add: dimension_def)
  from brain_age_batch_ok[OF this] show ?thesis by (simp add: sh)
qed

lemma example_volume_simps:
  "dimension example_volume = 3" "shape (pixels example_volume) = [2, 2, 130]"
  "voxels (pixels example_volume) \<noteq> []"
  by (simp_all add: example_volume_def dimension_def voxels_empty_iff)

theorem brain_age_batch_shape_and_channels_witness:
  "\<exists>t1_normalized batchX.
     brain_age_normalize example_volume = Inr t1_normalized \<and>
     brain_age_batch t1_normalized = Inr batchX \<and>
     shape batchX = [80, 2, 2, 3] \<and>
     data batchX [7, 1, 0, 2] = data (pixels t1_normalized) [1, 0, 53]"
proof -
  obtain tn where tn: "brain_age_normalize example_volume = Inr tn"
    using brain_age_normalize_ok[OF example_volume_simps(3)] by blast
  from brain_age_batch_shape_and_channels[OF tn] example_volume_simps
  obtain b where b: "brain_age_batch tn = Inr b" "shape b = [80, 2, 2, 3]"
    and d: "\<And>i x y c. i < 80 \<Longrightarrow> c < 3 \<Longrightarrow> data b [i, x, y, c] = data (pixels tn) [x, y, 44 + i + c]"
    by auto
  from d[of 7 2 1 0] have "data b [7, 1, 0, 2] = data (pixels tn) [1, 0, 53]" by simp
  with tn b show ?thesis by blast
qed

text \<open>
  Claim C9. Whatever the input, the loop of \<^verbatim>\<open>brain_age\<close> asks for exactly the
  axial slices 44 to 125. For a three-dimensional preprocessed volume the batch can be
  built if and only if the volume has at least 126 slices; with fewer, the call ends in the
  library's out-of-range failure of the slice extraction.
\<close>

theorem brain_age_slices_out_of_range:
  assumes "dimension t1 = 3"
    and "brain_age_preprocess lib t1 do_preprocessing output_directory verbose st =
           (Inr t1_preprocessed, st1)"
    and "brain_age_normalize t1_preprocessed = Inr t1_normalized"
    and "dimension t1_preprocessed = 3"
  shows "set brain_age_slice_indices = {44..125} \<and>
     ((\<exists>batchX. brain_age_batch t1_normalized = Inr batchX)
        \<longleftrightarrow> (\<forall>k\<in>set brain_age_slice_indices. k < shape (pixels t1_preprocessed) ! 2)) \<and>
     ((\<exists>batchX. brain_age_batch t1_normalized = Inr batchX)
        \<longleftrightarrow> 126 \<le> shape (pixels t1_preprocessed) ! 2) \<and>
     (shape (pixels t1_preprocessed) ! 2 < 126 \<longrightarrow>
        fst (brain_age lib t1 do_preprocessing output_directory verbose st) =
          Inl (LibraryError ''slice_image: index out of range''))"
proof -
  from brain_age_normalize_Inr_D[OF assms(3)]
  have sh: "shape (pixels t1_normalized) = shape (pixels t1_preprocessed)" by simp
  with assms(4) have dim: "dimension t1_normalized = 3" by (simp add: dimension_def)
  have iff: "(\<exists>batchX. brain_age_batch t1_normalized = Inr batchX)
        \<longleftrightarrow> 126 \<le> shape (pixels t1_preprocessed) ! 2"
    using brain_age_batch_Inr_iff[of t1_normalized] dim sh by simp
  have "(\<forall>k\<in>set brain_age_slice_indices. k < shape (pixels t1_preprocessed) ! 2)
        \<longleftrightarrow> 126 \<le> shape (pixels t1_preprocessed) ! 2"
  proof
    assume "\<forall>k\<in>set brain_age_slice_indices. k < shape (pixels t1_preprocessed) ! 2"
    moreover have "(125::nat) \<in> set brain_age_slice_indices"
      unfolding set_brain_age_slice_indices by simp
    ultimately have "125 < shape (pixels t1_preprocessed) ! 2" by blast
    then show "126 \<le> shape (pixels t1_preprocessed) ! 2" by simp
  next
    assume "126 \<le> shape (pixels t1_preprocessed) ! 2"
    then show "\<forall>k\<in>set brain_age_slice_indices. k < shape (pixels t1_preprocessed) ! 2"
      unfolding set_brain_age_slice_indices by auto
  qed
  with iff have "(\<exists>batchX. brain_age_batch t1_normalized = Inr batchX)
        \<longleftrightarrow> (\<forall>k\<in>set brain_age_slice_indices. k < shape (pixels t1_preprocessed) ! 2)"
    by simp
  moreover note iff
  moreover have "fst (brain_age lib t1 do_preprocessing output_directory verbose st) =
          Inl (LibraryError ''slice_image: index out of range'')"
    if "shape (pixels t1_preprocessed) ! 2 < 126"
  proof -
    from that sh have "shape (pixels t1_normalized) ! 2 < 126" by simp
    from brain_age_batch_out_of_range[OF dim this]
    show ?thesis by (rule brain_age_run_batch_error[OF assms(1,2,3)])
  qed
  ultimately show ?thesis using set_brain_age_slice_indices by blast
qed

lemma example_short_volume_simps:
  "dimension example_short_volume = 3" "shape (pixels example_short_volume) = [2, 2, 100]"
  "voxels (pixels example_short_volume) \<noteq> []"
  by (simp_all add: example_short_volume_def dimension_def voxels_empty_iff)

theorem brain_age_slices_out_of_range_witness:
  "fst (brain_age example_lib example_short_volume False None False example_state) =
     Inl (LibraryError ''slice_image: index out of range'')"
proof -
  have pre: "brain_age_preprocess example_lib example_short_volume False None False example_state
      = (Inr example_short_volume, example_state)"
    by (simp add: brain_age_preprocess_def)
  obtain tn where tn: "brain_age_normalize example_short_volume = Inr tn"
    using brain_age_normalize_ok[OF example_short_volume_simps(3)] by blast
  from brain_age_slices_out_of_range[OF example_short_volume_simps(1) pre tn example_short_volume_simps(1)]
  show ?thesis by (simp add: example_short_volume_simps)
qed

text \<open>
  Claim C2. When \<^verbatim>\<open>brain_age\<close> returns, the result holds, together, the model's
  per-slice predictions over the batch of 80 rows and the predicted age, which is what
  \<^verbatim>\<open>statistics.median(...)[0]\<close> gives for those predictions. For a prediction
  array of shape \<open>(n, 1)\<close> the predicted age is a scalar: the median of the \<open>n\<close> entries
  \<open>[i, 0]\<close> of the array, that is the middle one of the sorted entries, or the mean of
  the two middle ones (of the 40th and the 41st for 80 rows); at least half of the entries
  are at or below it and at least half at or above it. The same holds for every prediction
  array whose rows have one element each, such as \<open>(n, 1, 1)\<close>, where the predicted age
  is an array of that one value.
\<close>

theorem brain_age_predicted_age_is_median:
  assumes "brain_age lib t1 do_preprocessing output_directory verbose st = (Inr r, st')"
  shows "\<exists>t1_preprocessed st1 t1_normalized model_weights_file_name st2 batchX.
     brain_age_preprocess lib t1 do_preprocessing output_directory verbose st =
       (Inr t1_preprocessed, st1) \<and>
     brain_age_normalize t1_preprocessed = Inr t1_normalized \<and>
     brain_age_weights lib output_directory verbose st1 = (model_weights_file_name, st2) \<and>
     brain_age_batch t1_normalized = Inr batchX \<and> shape batchX ! 0 = 80 \<and>
     brain_age_per_slice r = predict lib (load_model lib model_weights_file_name) batchX \<and>
     median_index0 (brain_age_per_slice r) = Inr (predicted_age r) \<and>
     (\<forall>n. shape (brain_age_per_slice r) = [n, 1] \<longrightarrow>
        0 < n \<and> shape (predicted_age r) = [] \<and>
        data (predicted_age r) [] =
          median (map (\<lambda>i. data (brain_age_per_slice r) [i, 0]) [0..<n]) \<and>
        is_median (map (\<lambda>i. data (brain_age_per_slice r) [i, 0]) [0..<n])
          (data (predicted_age r) [])) \<and>
     (shape (brain_age_per_slice r) = [80, 1] \<longrightarrow>
        data (predicted_age r) [] =
          (sort (map (\<lambda>i. data (brain_age_per_slice r) [i, 0]) [0..<80]) ! 39
           + sort (map (\<lambda>i. data (brain_age_per_slice r) [i, 0]) [0..<80]) ! 40) / 2) \<and>
     (\<forall>n k rest. shape (brain_age_per_slice r) = n # k # rest \<and> prod_list (k # rest) = 1 \<longrightarrow>
        0 < n \<and> shape (predicted_age r) = rest \<and>
        data (predicted_age r) (replicate (length rest) 0) =
          median (map (\<lambda>i. data (brain_age_per_slice r) (i # replicate (Suc (length rest)) 0))
                    [0..<n]) \<and>
        is_median (map (\<lambda>i. data (brain_age_per_slice r) (i # replicate (Suc (length rest)) 0))
                    [0..<n])
          (data (predicted_age r) (replicate (length rest) 0)))"
proof -
  from brain_age_Inr_D[OF assms] obtain tp st1 tn f st2 b where
    pre: "brain_age_preprocess lib t1 do_preprocessing output_directory verbose st = (Inr tp, st1)"
    and tn: "brain_age_normalize tp = Inr tn"
    and w: "brain_age_weights lib output_directory verbose st1 = (f, st2)"
    and b: "brain_age_batch tn = Inr b"
    and p: "brain_age_per_slice r = predict lib (load_model lib f) b"
    and m: "median_index0 (brain_age_per_slice r) = Inr (predicted_age r)"
    by blast
  from brain_age_batch_Inr_D[OF b] have "dimension tn = 3" "126 \<le> shape (pixels tn) ! 2" by simp_all
  from brain_age_batch_ok[OF this] b have n: "shape b ! 0 = 80" by auto
  have column: "0 < n \<and> shape (predicted_age r) = [] \<and>
        data (predicted_age r) [] =
          median (map (\<lambda>i. data (brain_age_per_slice r) [i, 0]) [0..<n]) \<and>
        is_median (map (\<lambda>i. data (brain_age_per_slice r) [i, 0]) [0..<n])
          (data (predicted_age r) [])"
    if sh: "shape (brain_age_per_slice r) = [n, 1]" for n
  proof -
    from median_index0_column[OF m sh]
    have c: "0 < n" "shape (predicted_age r) = []"
      "data (predicted_age r) [] = median (map (\<lambda>i. data (brain_age_per_slice r) [i, 0]) [0..<n])"
      by simp_all
    from c(1) have "map (\<lambda>i. data (brain_age_per_slice r) [i, 0]) [0..<n] \<noteq> []" by simp
    from median_is_median[OF this] c show ?thesis by simp
  qed
  have eighty: "data (predicted_age r) [] =
          (sort (map (\<lambda>i. data (brain_age_per_slice r) [i, 0]) [0..<80]) ! 39
           + sort (map (\<lambda>i. data (brain_age_per_slice r) [i, 0]) [0..<80]) ! 40) / 2"
    if sh: "shape (brain_age_per_slice r) = [80, 1]"
  proof -
    have "length (map (\<lambda>i. data (brain_age_per_slice r) [i, 0]) [0..<80]) = 80"
      by (simp del: upt_rec_numeral)
    from median_of_80[OF this] column[OF sh] show ?thesis by simp
  qed
  have general: "0 < n \<and> shape (predicted_age r) = rest \<and>
        data (predicted_age r) (replicate (length rest) 0) =
          median (map (\<lambda>i. data (brain_age_per_slice r) (i # replicate (Suc (length rest)) 0))
                    [0..<n]) \<and>
        is_median (map (\<lambda>i. data (brain_age_per_slice r) (i # replicate (Suc (length rest)) 0))
                    [0..<n])
          (data (predicted_age r) (replicate (length rest) 0))"
    if sh: "shape (brain_age_per_slice r) = n # k # rest \<and> prod_list (k # rest) = 1"
    for n k rest
  proof -
    from sh have s1: "shape (brain_age_per_slice r) = n # k # rest"
      and s2: "prod_list (k # rest) = 1" by simp_all
    from median_index0_single_element_rows[OF m s1 s2]
    have c: "0 < n" "shape (predicted_age r) = rest"
      "data (predicted_age r) (replicate (length rest) 0) =
          median (map (\<lambda>i. data (brain_age_per_slice r) (i # replicate (Suc (length rest)) 0))
                    [0..<n])"
      by simp_all
    from c(1) have "map (\<lambda>i. data (brain_age_per_slice r) (i # replicate (Suc (length rest)) 0))
                    [0..<n] \<noteq> []" by simp
    from median_is_median[OF this] c show ?thesis by simp
  qed
  from pre tn w b n p m column eighty general show ?thesis by blast
qed

lemma sorted_reals_upt: "sort (map real [0..<n]) = map real [0..<n]"
  by (rule sorted_sort_id) (simp add: sorted_map sorted_wrt_iff_nth_less)

theorem brain_age_predicted_age_is_median_witness:
  "\<exists>r st'. brain_age example_lib example_volume False None False example_state = (Inr r, st') \<and>
     shape (brain_age_per_slice r) = [80, 1] \<and> shape (predicted_age r) = [] \<and>
     data (predicted_age r) [] = 79 / 2"
proof -
  have pre: "brain_age_preprocess example_lib example_volume False None False example_state
      = (Inr example_volume, example_state)"
    by (simp add: brain_age_preprocess_def)
  obtain tn where tn: "brain_age_normalize example_volume = Inr tn"
    using brain_age_normalize_ok[OF example_volume_simps(3)] by blast
  obtain f st2 where w: "brain_age_weights example_lib None False example_state = (f, st2)"
    by (cases "brain_age_weights example_lib None False example_state")
  from brain_age_normalize_Inr_D[OF tn] example_volume_simps
  have sh: "shape (pixels tn) = [2, 2, 130]" and "dimension tn = 3" "126 \<le> shape (pixels tn) ! 2"
    by (simp_all add: dimension_def)
  from brain_age_batch_ok[OF this(2,3)] sh
  obtain b where b: "brain_age_batch tn = Inr b" "shape b = [80, 2, 2, 3]" by auto
  have pr: "\<And>m. predict example_lib m b =
      \<lparr>shape = [80, 1], data = (\<lambda>idx. real (idx ! 0))\<rparr>"
    using b(2) by (simp add: example_lib_def)
  from median_index0_column_ok[of "predict example_lib (load_model example_lib f) b" 80]
  obtain a where med: "median_index0 (predict example_lib (load_model example_lib f) b) = Inr a"
    by (auto simp: pr)
  from brain_age_run[OF example_volume_simps(1) pre tn w b(1) med]
  have run: "brain_age example_lib example_volume False None False example_state =
      (Inr \<lparr>predicted_age = a,
            brain_age_per_slice = predict example_lib (load_model example_lib f) b\<rparr>,
       say False ''Brain age (DeepBrainNet):  predicting brain age per slice.'' st2)" .
  let ?r = "\<lparr>predicted_age = a,
            brain_age_per_slice = predict example_lib (load_model example_lib f) b\<rparr>"
  have shp: "shape (brain_age_per_slice ?r) = [80, 1]" by (simp add: pr)
  have xs: "map (\<lambda>i. data (brain_age_per_slice ?r) [i, 0]) [0..<80] = map real [0..<80]"
    by (simp add: pr del: upt_rec_numeral)
  from brain_age_predicted_age_is_median[OF run] shp
  have "shape (predicted_age ?r) = []"
    and "data (predicted_age ?r) [] =
          (sort (map (\<lambda>i. data (brain_age_per_slice ?r) [i, 0]) [0..<80]) ! 39
           + sort (map (\<lambda>i. data (brain_age_per_slice ?r) [i, 0]) [0..<80]) ! 40) / 2"
    by blast+
  then have "shape (predicted_age ?r) = []" "data (predicted_age ?r) [] = 79 / 2"
    unfolding xs sorted_reals_upt by (simp_all del: upt_rec_numeral)
  with run shp show ?thesis by blast
qed

section \<open>The nested helper\<close>

lemma map2_max_add: "map2 max xs (map (\<lambda>a. a + (m::nat)) xs) = map (\<lambda>a. a + m) xs"
  by (induction xs) auto

lemma pad_image_ok:
  "pad_image v a (map (\<lambda>x. x + m) (shape a)) =
     Inr \<lparr>shape = map (\<lambda>x. x + m) (shape a),
          data = (\<lambda>idx. if list_all2 (\<lambda>i (l, os). l \<le> i \<and> i < l + os) idx
                              (zip (map2 (\<lambda>os ns. (ns - os) div 2) (shape a)
                                      (map (\<lambda>x. x + m) (shape a))) (shape a))
                         then data a (map2 (-) idx (map2 (\<lambda>os ns. (ns - os) div 2) (shape a)
                                      (map (\<lambda>x. x + m) (shape a))))
                         else v)\<rparr>"
  by (simp add: pad_image_def Let_def map2_max_add)

lemma crop_image_center_ok:
  assumes "list_all2 (\<le>) crop_size (shape a)"
  shows "crop_image_center a crop_size =
     Inr \<lparr>shape = crop_size,
          data = (\<lambda>idx. data a (map2 (+) idx (map2 (\<lambda>s c. (s - c) div 2) (shape a) crop_size)))\<rparr>"
proof -
  from assms have len: "length crop_size = length (shape a)" by (rule list_all2_lengthD)
  have "\<not> list_ex (\<lambda>(c, s). c > s) (zip crop_size (shape a))"
    using assms by (auto simp: list_ex_iff list_all2_iff)
  with len show ?thesis by (simp add: crop_image_center_def Let_def)
qed

lemma crop_image_center_Inr_D:
  "crop_image_center a crop_size = Inr r \<Longrightarrow> shape r = crop_size"
  by (auto simp: crop_image_center_def Let_def split: if_splits)

lemma length_size_differences:
  "length (size_differences image_size target_size) = min (length image_size) (length target_size)"
  by (simp add: size_differences_def)

lemma size_differences_nth:
  "length target_size = length image_size \<Longrightarrow> k < length image_size \<Longrightarrow>
     size_differences image_size target_size ! k = int (image_size ! k) - int (target_size ! k)"
  by (simp add: size_differences_def)

lemma size_differences_mem:
  "length target_size = length image_size \<Longrightarrow> k < length image_size \<Longrightarrow>
     size_differences image_size target_size ! k \<in> set (size_differences image_size target_size)"
  by (rule nth_mem) (simp add: length_size_differences)

lemma padded_covers_target:
  assumes len: "length target_size = length image_size"
    and neg: "list_ex (\<lambda>d. d < 0) (size_differences image_size target_size)"
  shows "list_all2 (\<le>) target_size
           (map (\<lambda>a. a + nat \<bar>Min (set (size_differences image_size target_size))\<bar>) image_size)"
proof -
  let ?delta = "size_differences image_size target_size"
  let ?m = "nat \<bar>Min (set ?delta)\<bar>"
  have fin: "finite (set ?delta)" and ne: "set ?delta \<noteq> {}"
    using neg by (auto simp: list_ex_iff)
  have "target_size ! k \<le> image_size ! k + ?m" if k: "k < length image_size" for k
  proof -
    have "?delta ! k = int (image_size ! k) - int (target_size ! k)"
      by (rule size_differences_nth[OF len k])
    moreover have "?delta ! k \<in> set ?delta" by (rule size_differences_mem[OF len k])
    then have "Min (set ?delta) \<le> ?delta ! k" using fin by simp
    ultimately show ?thesis by linarith
  qed
  then show ?thesis using len by (simp add: list_all2_conv_all_nth)
qed

lemma target_within_image:
  assumes len: "length target_size = length image_size"
    and nonneg: "\<not> list_ex (\<lambda>d. d < 0) (size_differences image_size target_size)"
  shows "list_all2 (\<le>) target_size image_size"
proof -
  have "target_size ! k \<le> image_size ! k" if k: "k < length image_size" for k
  proof -
    have "size_differences image_size target_size ! k \<in> set (size_differences image_size target_size)"
      by (rule size_differences_mem[OF len k])
    with nonneg have "\<not> size_differences image_size target_size ! k < 0"
      by (auto simp: list_ex_iff)
    then show ?thesis by (simp add: size_differences_nth[OF len k])
  qed
  then show ?thesis using len by (simp add: list_all2_conv_all_nth)
qed

lemma list_ex_size_differences:
  assumes "length target_size = length image_size"
  shows "list_ex (\<lambda>d. d < 0) (size_differences image_size target_size)
     \<longleftrightarrow> (\<exists>k<length image_size. image_size ! k < target_size ! k)"
proof
  assume "list_ex (\<lambda>d. d < 0) (size_differences image_size target_size)"
  then obtain d where d: "d \<in> set (size_differences image_size target_size)" "d < 0"
    by (auto simp: list_ex_iff)
  then obtain k where k: "k < length (size_differences image_size target_size)"
    "d = size_differences image_size target_size ! k"
    by (auto simp: in_set_conv_nth)
  from k(1) assms have k': "k < length image_size" by (simp add: length_size_differences)
  from d(2) k(2) size_differences_nth[OF assms k']
  have "image_size ! k < target_size ! k" by simp
  with k' show "\<exists>k<length image_size. image_size ! k < target_size ! k" by blast
next
  assume "\<exists>k<length image_size. image_size ! k < target_size ! k"
  then obtain k where k: "k < length image_size" "image_size ! k < target_size ! k" by blast
  from size_differences_mem[OF assms k(1)] size_differences_nth[OF assms k(1)] k(2)
  show "list_ex (\<lambda>d. d < 0) (size_differences image_size target_size)"
    by (auto simp: list_ex_iff intro!: bexI[of _ "size_differences image_size target_size ! k"])
qed

text \<open>
  Claim C8. For an image and a target size of the image's rank,
  \<^verbatim>\<open>pad_or_crop_image_to_size\<close> returns an image of exactly the target size. When
  some extent is smaller than its target, every extent is first padded by the absolute
  value of the most negative difference between image size and target size, after which
  no extent is below its target; otherwise nothing is padded. The result is the centre
  crop of that image to the target size.
\<close>

theorem pad_or_crop_image_to_size_shape:
  assumes "length target_size = length (shape img)"
  shows "\<exists>padded r.
     (if \<exists>k<length (shape img). shape img ! k < target_size ! k
      then pad_image pad_value img
             (map (\<lambda>a. a + nat \<bar>Min (set (size_differences (shape img) target_size))\<bar>) (shape img))
             = Inr padded \<and>
           shape padded =
             map (\<lambda>a. a + nat \<bar>Min (set (size_differences (shape img) target_size))\<bar>) (shape img)
      else padded = img) \<and>
     list_all2 (\<le>) target_size (shape padded) \<and>
     crop_image_center padded target_size = Inr r \<and>
     pad_or_crop_image_to_size pad_value img target_size = Inr r \<and>
     shape r = target_size"
proof (cases "list_ex (\<lambda>d. d < 0) (size_differences (shape img) target_size)")
  case True
  let ?m = "nat \<bar>Min (set (size_differences (shape img) target_size))\<bar>"
  let ?shp = "map (\<lambda>a. a + ?m) (shape img)"
  obtain padded where p: "pad_image pad_value img ?shp = Inr padded" "shape padded = ?shp"
    using pad_image_ok[of pad_value img ?m] by simp
  from padded_covers_target[OF assms True] p(2)
  have cover: "list_all2 (\<le>) target_size (shape padded)" by simp
  from crop_image_center_ok[OF cover] obtain r where
    r: "crop_image_center padded target_size = Inr r" "shape r = target_size" by simp
  have "pad_or_crop_image_to_size pad_value img target_size = Inr r"
    using assms True p(1) r(1)
    by (simp add: pad_or_crop_image_to_size_def Let_def size_differences_def)
  moreover have "\<exists>k<length (shape img). shape img ! k < target_size ! k"
    using True list_ex_size_differences[OF assms] by simp
  ultimately show ?thesis using p cover r by auto
next
  case False
  from target_within_image[OF assms False]
  have cover: "list_all2 (\<le>) target_size (shape img)" .
  from crop_image_center_ok[OF cover] obtain r where
    r: "crop_image_center img target_size = Inr r" "shape r = target_size" by simp
  have "pad_or_crop_image_to_size pad_value img target_size = Inr r"
    using assms False r(1)
    by (simp add: pad_or_crop_image_to_size_def Let_def size_differences_def)
  moreover have "\<not> (\<exists>k<length (shape img). shape img ! k < target_size ! k)"
    using False list_ex_size_differences[OF assms] by simp
  ultimately show ?thesis using cover r by auto
qed

theorem pad_or_crop_image_to_size_shape_witness:
  "\<exists>r. pad_or_crop_image_to_size (0::real) \<lparr>shape = [3, 7], data = (\<lambda>idx. 1)\<rparr> [5, 5] = Inr r \<and>
     shape r = [5, 5]"
  using pad_or_crop_image_to_size_shape[of "[5, 5]" "\<lparr>shape = [3, 7], data = (\<lambda>idx. 1)\<rparr>" "0::real"]
  by auto

lemma pad_or_crop_ok:
  assumes "length target_size = length (shape img)"
  shows "\<exists>r. pad_or_crop_image_to_size pad_value img target_size = Inr r \<and> shape r = target_size"
proof (cases "list_ex (\<lambda>d. d < 0) (size_differences (shape img) target_size)")
  case True
  let ?m = "nat \<bar>Min (set (size_differences (shape img) target_size))\<bar>"
  let ?shp = "map (\<lambda>a. a + ?m) (shape img)"
  obtain padded where p: "pad_image pad_value img ?shp = Inr padded" "shape padded = ?shp"
    using pad_image_ok[of pad_value img ?m] by simp
  from padded_covers_target[OF assms True] p(2)
  have cover: "list_all2 (\<le>) target_size (shape padded)" by simp
  from crop_image_center_ok[OF cover] obtain r where
    r: "crop_image_center padded target_size = Inr r" "shape r = target_size" by simp
  have "pad_or_crop_image_to_size pad_value img target_size = Inr r"
    using assms True p(1) r(1)
    by (simp add: pad_or_crop_image_to_size_def Let_def size_differences_def)
  with r(2) show ?thesis by blast
next
  case False
  from target_within_image[OF assms False]
  have cover: "list_all2 (\<le>) target_size (shape img)" .
  from crop_image_center_ok[OF cover] obtain r where
    r: "crop_image_center img target_size = Inr r" "shape r = target_size" by simp
  have "pad_or_crop_image_to_size pad_value img target_size = Inr r"
    using assms False r(1)
    by (simp add: pad_or_crop_image_to_size_def Let_def size_differences_def)
  with r(2) show ?thesis by blast
qed

lemma pad_image_Inl_D: "pad_image v a shp = Inl e \<Longrightarrow> other_error e"
  by (auto simp: pad_image_def Let_def split: if_splits)

lemma crop_image_center_Inl_D: "crop_image_center a c = Inl e \<Longrightarrow> other_error e"
  by (auto simp: crop_image_center_def Let_def split: if_splits)

lemma pad_or_crop_Inl_D: "pad_or_crop_image_to_size v a c = Inl e \<Longrightarrow> other_error e"
  by (auto simp: pad_or_crop_image_to_size_def Let_def ebind_Inl_iff split: if_splits
      dest: pad_image_Inl_D crop_image_center_Inl_D)

lemma pad_or_crop_Inr_D: "pad_or_crop_image_to_size v a c = Inr r \<Longrightarrow> shape r = c"
  by (auto simp: pad_or_crop_image_to_size_def Let_def ebind_Inr_iff split: if_splits
      dest: crop_image_center_Inr_D)

section \<open>The batch of sysu_media_wmh_segmentation\<close>

lemma padded_slice_ok:
  assumes "dimension vol = 3" "i < shape (pixels vol) ! 2"
  shows "\<exists>p. padded_slice vol i = Inr p \<and> shape p = [200, 200]"
proof -
  have len: "length (shape (pixels vol)) = 3" using assms(1) by (simp add: dimension_def)
  let ?s = "\<lparr>shape = take 2 (shape (pixels vol)),
             data = (\<lambda>j. data (pixels vol) (insert_at 2 i j))\<rparr>"
  have s: "slice_image vol 2 i = Inr ?s" by (rule slice_image_axis2[OF assms])
  have "length [200, 200::nat] = length (shape ?s)" using len by simp
  from pad_or_crop_ok[OF this, of "Some 0"] show ?thesis
    by (simp add: padded_slice_def s)
qed

lemma padded_slice_Inl_D: "padded_slice vol i = Inl e \<Longrightarrow> other_error e"
  by (auto simp: padded_slice_def ebind_Inl_iff dest: slice_image_Inl_D pad_or_crop_Inl_D)

lemma wmh_row_Inl_D: "wmh_row fw tw i b = Inl e \<Longrightarrow> other_error e"
  by (auto simp: wmh_row_def ebind_Inl_iff split: option.splits
      dest: padded_slice_Inl_D set_plane_Inl_D)

lemma wmh_batch_Inl_D: "wmh_batch fw tw = Inl e \<Longrightarrow> other_error e"
  unfolding wmh_batch_def Let_def
  by (rule efold_Inl_D[of "wmh_row fw tw"]) (rule wmh_row_Inl_D)

lemma wmh_row_ok:
  assumes dim: "dimension fw = 3" and i: "i < shape (pixels fw) ! 2"
    and b: "shape b = [shape (pixels fw) ! 2, 200, 200, (case tw of None \<Rightarrow> 1 | Some w \<Rightarrow> 2)]"
    and t: "\<And>w. tw = Some w \<Longrightarrow> dimension w = 3 \<and> i < shape (pixels w) ! 2"
  shows "\<exists>b'. wmh_row fw tw i b = Inr b' \<and> shape b' = shape b \<and>
     (\<forall>idx. data b' idx =
        (if length idx = 4 \<and> idx ! 0 = i \<and> idx ! 3 = 0
         then data (projr (padded_slice fw i)) [idx ! 1, idx ! 2]
         else if length idx = 4 \<and> idx ! 0 = i \<and> idx ! 3 = 1 \<and> tw \<noteq> None
         then data (projr (padded_slice (the tw) i)) [idx ! 1, idx ! 2]
         else data b idx))"
proof -
  obtain p0 where p0: "padded_slice fw i = Inr p0" "shape p0 = [200, 200]"
    using padded_slice_ok[OF dim i] by blast
  show ?thesis
  proof (cases tw)
    case None
    with b have sb: "shape b = [shape (pixels fw) ! 2, 200, 200, 1]" by simp
    show ?thesis
      unfolding wmh_row_def p0 None
      by (simp add: set_plane_ok[OF sb i _ p0(2)])
  next
    case (Some w)
    with b have sb: "shape b = [shape (pixels fw) ! 2, 200, 200, 2]" by simp
    from t[OF Some] obtain p1 where p1: "padded_slice w i = Inr p1" "shape p1 = [200, 200]"
      using padded_slice_ok by blast
    let ?b0 = "\<lparr>shape = shape b,
          data = (\<lambda>idx. if length idx = 4 \<and> idx ! 0 = i \<and> idx ! 3 = 0
                         then data p0 [idx ! 1, idx ! 2] else data b idx)\<rparr>"
    have b0: "set_plane b i 0 p0 = Inr ?b0" by (simp add: set_plane_ok[OF sb i _ p0(2)])
    have sb0: "shape ?b0 = [shape (pixels fw) ! 2, 200, 200, 2]" using sb by simp
    have b1: "set_plane ?b0 i 1 p1 =
        Inr \<lparr>shape = shape ?b0,
          data = (\<lambda>idx. if length idx = 4 \<and> idx ! 0 = i \<and> idx ! 3 = 1
                         then data p1 [idx ! 1, idx ! 2] else data ?b0 idx)\<rparr>"
      by (rule set_plane_ok[OF sb0 i _ p1(2)]) simp
    have "wmh_row fw tw i b = set_plane ?b0 i 1 p1"
      by (simp add: wmh_row_def p0(1) Some b0 p1(1))
    then show ?thesis
      unfolding b1 using Some p0(1) p1(1) by auto
  qed
qed

lemma wmh_fill_ok:
  assumes dim: "dimension fw = 3"
    and t: "\<And>w. tw = Some w \<Longrightarrow> dimension w = 3 \<and> shape (pixels fw) ! 2 \<le> shape (pixels w) ! 2"
  shows "(\<forall>i\<in>set js. i < shape (pixels fw) ! 2) \<Longrightarrow>
     shape b = [shape (pixels fw) ! 2, 200, 200, (case tw of None \<Rightarrow> 1 | Some w \<Rightarrow> 2)] \<Longrightarrow>
     \<exists>b'. efold (wmh_row fw tw) js b = Inr b' \<and> shape b' = shape b \<and>
       (\<forall>idx. data b' idx =
          (if length idx = 4 \<and> idx ! 0 \<in> set js \<and> idx ! 3 = 0
           then data (projr (padded_slice fw (idx ! 0))) [idx ! 1, idx ! 2]
           else if length idx = 4 \<and> idx ! 0 \<in> set js \<and> idx ! 3 = 1 \<and> tw \<noteq> None
           then data (projr (padded_slice (the tw) (idx ! 0))) [idx ! 1, idx ! 2]
           else data b idx))"
proof (induction js arbitrary: b)
  case Nil
  then show ?case by simp
next
  case (Cons j js)
  from Cons.prems have j: "j < shape (pixels fw) ! 2"
    and js: "\<forall>i\<in>set js. i < shape (pixels fw) ! 2" by auto
  have tj: "\<And>w. tw = Some w \<Longrightarrow> dimension w = 3 \<and> j < shape (pixels w) ! 2"
    using t j by fastforce
  from wmh_row_ok[OF dim j Cons.prems(2) tj]
  obtain b1 where b1: "wmh_row fw tw j b = Inr b1" "shape b1 = shape b"
    and d1: "\<And>idx. data b1 idx =
        (if length idx = 4 \<and> idx ! 0 = j \<and> idx ! 3 = 0
         then data (projr (padded_slice fw j)) [idx ! 1, idx ! 2]
         else if length idx = 4 \<and> idx ! 0 = j \<and> idx ! 3 = 1 \<and> tw \<noteq> None
         then data (projr (padded_slice (the tw) j)) [idx ! 1, idx ! 2]
         else data b idx)"
    by blast
  from b1(2) Cons.prems(2)
  have sh1: "shape b1 = [shape (pixels fw) ! 2, 200, 200, (case tw of None \<Rightarrow> 1 | Some w \<Rightarrow> 2)]"
    by simp
  from Cons.IH[OF js sh1]
  obtain b' where b': "efold (wmh_row fw tw) js b1 = Inr b'" "shape b' = shape b1"
    and d': "\<And>idx. data b' idx =
          (if length idx = 4 \<and> idx ! 0 \<in> set js \<and> idx ! 3 = 0
           then data (projr (padded_slice fw (idx ! 0))) [idx ! 1, idx ! 2]
           else if length idx = 4 \<and> idx ! 0 \<in> set js \<and> idx ! 3 = 1 \<and> tw \<noteq> None
           then data (projr (padded_slice (the tw) (idx ! 0))) [idx ! 1, idx ! 2]
           else data b1 idx)"
    by blast
  have "efold (wmh_row fw tw) (j # js) b = Inr b'" using b1(1) b'(1) by simp
  moreover have "shape b' = shape b" using b'(2) b1(2) by simp
  moreover have "\<forall>idx. data b' idx =
          (if length idx = 4 \<and> idx ! 0 \<in> set (j # js) \<and> idx ! 3 = 0
           then data (projr (padded_slice fw (idx ! 0))) [idx ! 1, idx ! 2]
           else if length idx = 4 \<and> idx ! 0 \<in> set (j # js) \<and> idx ! 3 = 1 \<and> tw \<noteq> None
           then data (projr (padded_slice (the tw) (idx ! 0))) [idx ! 1, idx ! 2]
           else data b idx)"
    by (auto simp: d' d1)
  ultimately show ?case by blast
qed

lemma wmh_batch_ok:
  assumes dim: "dimension fw = 3"
    and t: "\<And>w. tw = Some w \<Longrightarrow> dimension w = 3 \<and> shape (pixels fw) ! 2 \<le> shape (pixels w) ! 2"
  shows "\<exists>b. wmh_batch fw tw = Inr b \<and>
     shape b = [shape (pixels fw) ! 2, 200, 200, (case tw of None \<Rightarrow> 1 | Some w \<Rightarrow> 2)] \<and>
     (\<forall>i<shape (pixels fw) ! 2.
        (\<exists>p. padded_slice fw i = Inr p \<and> shape p = [200, 200] \<and>
              (\<forall>x y. data b [i, x, y, 0] = data p [x, y])) \<and>
        (\<forall>w. tw = Some w \<longrightarrow>
           (\<exists>p. padded_slice w i = Inr p \<and> shape p = [200, 200] \<and>
                 (\<forall>x y. data b [i, x, y, 1] = data p [x, y]))))"
proof -
  let ?n = "shape (pixels fw) ! 2"
  let ?b0 = "np_zeros [?n, 200, 200, (case tw of None \<Rightarrow> 1 | Some w \<Rightarrow> 2)]"
  have sh0: "shape ?b0 = [?n, 200, 200, (case tw of None \<Rightarrow> 1 | Some w \<Rightarrow> 2)]"
    by (simp add: np_zeros_def)
  have rng: "\<forall>i\<in>set [0..<?n]. i < ?n" by simp
  from wmh_fill_ok[OF dim t rng sh0]
  obtain b where b: "efold (wmh_row fw tw) [0..<?n] ?b0 = Inr b" "shape b = shape ?b0"
    and d: "\<And>idx. data b idx =
          (if length idx = 4 \<and> idx ! 0 \<in> set [0..<?n] \<and> idx ! 3 = 0
           then data (projr (padded_slice fw (idx ! 0))) [idx ! 1, idx ! 2]
           else if length idx = 4 \<and> idx ! 0 \<in> set [0..<?n] \<and> idx ! 3 = 1 \<and> tw \<noteq> None
           then data (projr (padded_slice (the tw) (idx ! 0))) [idx ! 1, idx ! 2]
           else data ?b0 idx)"
    by blast
  have run: "wmh_batch fw tw = Inr b" using b(1) by (simp add: wmh_batch_def Let_def)
  have planes: "(\<exists>p. padded_slice fw i = Inr p \<and> shape p = [200, 200] \<and>
              (\<forall>x y. data b [i, x, y, 0] = data p [x, y])) \<and>
        (\<forall>w. tw = Some w \<longrightarrow>
           (\<exists>p. padded_slice w i = Inr p \<and> shape p = [200, 200] \<and>
                 (\<forall>x y. data b [i, x, y, 1] = data p [x, y])))" if i: "i < ?n" for i
  proof
    obtain p0 where p0: "padded_slice fw i = Inr p0" "shape p0 = [200, 200]"
      using padded_slice_ok[OF dim i] by blast
    have "\<forall>x y. data b [i, x, y, 0] = data p0 [x, y]" using i by (simp add: d p0)
    with p0 show "\<exists>p. padded_slice fw i = Inr p \<and> shape p = [200, 200] \<and>
              (\<forall>x y. data b [i, x, y, 0] = data p [x, y])" by blast
  next
    show "\<forall>w. tw = Some w \<longrightarrow>
           (\<exists>p. padded_slice w i = Inr p \<and> shape p = [200, 200] \<and>
                 (\<forall>x y. data b [i, x, y, 1] = data p [x, y]))"
    proof (intro allI impI)
      fix w assume w: "tw = Some w"
      from t[OF w] i have "dimension w = 3" "i < shape (pixels w) ! 2" by auto
      then obtain p1 where p1: "padded_slice w i = Inr p1" "shape p1 = [200, 200]"
        using padded_slice_ok by blast
      have "\<forall>x y. data b [i, x, y, 1] = data p1 [x, y]" using i w by (simp add: d p1)
      with p1 show "\<exists>p. padded_slice w i = Inr p \<and> shape p = [200, 200] \<and>
                 (\<forall>x y. data b [i, x, y, 1] = data p [x, y])" by blast
    qed
  qed
  from run b(2) sh0 planes show ?thesis by auto
qed

section \<open>The stages of sysu_media_wmh_segmentation\<close>

declare str.simps [simp del]

lemma str_digit: "n < 10 \<Longrightarrow> str n = [digit n]"
  by (subst str.simps) simp

lemma reference_image_simps [simp]:
  "dimension reference_image = 3"
  "shape (pixels reference_image) = [200, 200, 200]"
  "origin reference_image = [0, 0, 0]"
  "spacing reference_image = [1, 1, 1]"
  "direction reference_image = [[1, 0, 0], [0, 1, 0], [0, 0, 1]]"
  by (simp_all add: reference_image_def dimension_def)

lemma apply_ants_transform_to_image_ok:
  assumes "dimension img = 3" "dimension reference = 3"
  shows "apply_ants_transform_to_image lib x img reference =
     Inr \<lparr>pixels = \<lparr>shape = shape (pixels reference),
                     data = (\<lambda>idx. interpolate lib img
                                (apply_ants_transform_to_point x (index_to_point reference idx)))\<rparr>,
          origin = origin reference, spacing = spacing reference,
          direction = direction reference\<rparr>"
  using assms by (simp add: apply_ants_transform_to_image_def)

lemma apply_ants_transform_to_image_Inr_D:
  assumes "apply_ants_transform_to_image lib x img reference = Inr r"
  shows "dimension img = 3 \<and> dimension reference = 3 \<and> dimension r = 3 \<and>
     shape (pixels r) = shape (pixels reference) \<and>
     origin r = origin reference \<and> spacing r = spacing reference \<and>
     direction r = direction reference \<and>
     (\<forall>idx. data (pixels r) idx =
        interpolate lib img (apply_ants_transform_to_point x (index_to_point reference idx)))"
  using assms by (auto simp: apply_ants_transform_to_image_def dimension_def split: if_splits)

lemma apply_ants_transform_to_image_Inl_D:
  "apply_ants_transform_to_image lib x img reference = Inl e \<Longrightarrow> other_error e"
  by (auto simp: apply_ants_transform_to_image_def split: if_splits)

lemma close_lists_refl: "close_lists xs xs"
  by (induction xs) (simp_all add: close_lists_def)

lemma image_physical_space_consistency_same_header:
  assumes "dimension a = dimension b" "origin a = origin b" "spacing a = spacing b"
    "direction a = direction b"
  shows "image_physical_space_consistency a b"
  using assms by (simp add: image_physical_space_consistency_def close_lists_refl)

lemma masked_values_Inl_D: "masked_values img m = Inl e \<Longrightarrow> other_error e"
  by (auto simp: masked_values_def split: if_splits)

lemma gaussian_normalize_Inl_D: "gaussian_normalize img m = Inl e \<Longrightarrow> other_error e"
  by (auto simp: gaussian_normalize_def ebind_Inl_iff dest: masked_values_Inl_D)

lemma gaussian_normalize_Inr_D:
  assumes "gaussian_normalize img m = Inr n"
  shows "\<exists>vs. masked_values img m = Inr vs \<and>
     n = image_map (standardize (np_mean vs) (np_std vs)) img"
  using assms by (auto simp: gaussian_normalize_def ebind_Inr_iff)

lemma gaussian_normalize_same_grid:
  assumes "dimension a = dimension b" "origin a = origin b" "spacing a = spacing b"
    "direction a = direction b" "shape (pixels a) = shape (pixels b)"
  shows "\<exists>n. gaussian_normalize a b = Inr n"
proof -
  have "image_physical_space_consistency a b"
    by (rule image_physical_space_consistency_same_header[OF assms(1-4)])
  with assms(5) have "\<exists>vs. masked_values a b = Inr vs"
    by (simp add: masked_values_def)
  then show ?thesis by (auto simp: gaussian_normalize_def)
qed

lemma np_sub_Inl_D: "np_sub a b = Inl e \<Longrightarrow> other_error e"
  by (auto simp: np_sub_def split: if_splits)

lemma create_ants_transform_Inl_D: "create_ants_transform c t = Inl e \<Longrightarrow> other_error e"
  by (auto simp: create_ants_transform_def split: if_splits)

lemma create_ants_transform_Inr_D:
  "create_ants_transform c t = Inr x \<Longrightarrow> length (translation x) = 3 \<and> length (center x) = 3"
  by (auto simp: create_ants_transform_def split: if_splits)

lemma wmh_xfrm_Inl_D: "wmh_xfrm lib m = Inl e \<Longrightarrow> other_error e"
  by (auto simp: wmh_xfrm_def Let_def ebind_Inl_iff dest: np_sub_Inl_D create_ants_transform_Inl_D)

lemma wmh_xfrm_Inr_D: "wmh_xfrm lib m = Inr x \<Longrightarrow> length (translation x) = 3"
  by (auto simp: wmh_xfrm_def Let_def ebind_Inr_iff dest: create_ants_transform_Inr_D)

lemma wmh_xfrm_ok:
  assumes "length (get_center_of_mass lib m) = 3" "length (get_center_of_mass lib reference_image) = 3"
  shows "\<exists>x. wmh_xfrm lib m = Inr x"
  using assms by (simp add: wmh_xfrm_def Let_def np_sub_def create_ants_transform_def)

lemma wmh_volumes_Inl_D: "wmh_volumes lib fp tp m = Inl e \<Longrightarrow> other_error e"
  unfolding wmh_volumes_def Let_def
  by (auto simp: ebind_Inl_iff split: option.splits
      dest: wmh_xfrm_Inl_D apply_ants_transform_to_image_Inl_D gaussian_normalize_Inl_D)

lemma wmh_volumes_Inr_D:
  assumes "wmh_volumes lib fp tp m = Inr (x, fw, tw)"
  shows "\<exists>fwarp mwarp.
     wmh_xfrm lib m = Inr x \<and>
     apply_ants_transform_to_image lib x fp reference_image = Inr fwarp \<and>
     apply_ants_transform_to_image lib x m reference_image = Inr mwarp \<and>
     gaussian_normalize fwarp (threshold_image mwarp) = Inr fw \<and>
     (case tp of
        None \<Rightarrow> tw = None
      | Some t \<Rightarrow>
          (\<exists>twarp tn. apply_ants_transform_to_image lib x t reference_image = Inr twarp \<and>
             gaussian_normalize twarp (threshold_image mwarp) = Inr tn \<and> tw = Some tn))"
  using assms unfolding wmh_volumes_def Let_def
  by (auto simp: ebind_Inr_iff split: option.splits)

lemma gaussian_normalize_of_warp:
  assumes "apply_ants_transform_to_image lib x img reference_image = Inr w"
    and "gaussian_normalize w k = Inr n"
  shows "dimension n = 3 \<and> shape (pixels n) = [200, 200, 200] \<and>
     origin n = origin reference_image \<and> spacing n = spacing reference_image \<and>
     direction n = direction reference_image"
proof -
  from apply_ants_transform_to_image_Inr_D[OF assms(1)]
  have w: "dimension w = 3" "shape (pixels w) = [200, 200, 200]" "origin w = origin reference_image"
    "spacing w = spacing reference_image" "direction w = direction reference_image"
    by simp_all
  from gaussian_normalize_Inr_D[OF assms(2)] obtain vs where
    "n = image_map (standardize (np_mean vs) (np_std vs)) w" by blast
  with w show ?thesis by simp
qed

lemma wmh_volumes_grid:
  assumes "wmh_volumes lib fp tp m = Inr (x, fw, tw)"
  shows "dimension fw = 3 \<and> shape (pixels fw) = [200, 200, 200] \<and>
     origin fw = origin reference_image \<and> spacing fw = spacing reference_image \<and>
     direction fw = direction reference_image \<and>
     (tw = None \<longleftrightarrow> tp = None) \<and>
     (\<forall>w. tw = Some w \<longrightarrow> dimension w = 3 \<and> shape (pixels w) = [200, 200, 200])"
proof -
  from wmh_volumes_Inr_D[OF assms] obtain fwarp mwarp where
    f: "apply_ants_transform_to_image lib x fp reference_image = Inr fwarp"
       "gaussian_normalize fwarp (threshold_image mwarp) = Inr fw"
    and t: "case tp of
        None \<Rightarrow> tw = None
      | Some t \<Rightarrow>
          (\<exists>twarp tn. apply_ants_transform_to_image lib x t reference_image = Inr twarp \<and>
             gaussian_normalize twarp (threshold_image mwarp) = Inr tn \<and> tw = Some tn)"
    by blast
  note gaussian_normalize_of_warp[OF f]
  moreover have "(tw = None \<longleftrightarrow> tp = None) \<and>
     (\<forall>w. tw = Some w \<longrightarrow> dimension w = 3 \<and> shape (pixels w) = [200, 200, 200])"
  proof (cases tp)
    case None
    with t show ?thesis by simp
  next
    case (Some a)
    with t obtain twarp tn where
      "apply_ants_transform_to_image lib x a reference_image = Inr twarp"
      "gaussian_normalize twarp (threshold_image mwarp) = Inr tn" "tw = Some tn" by auto
    with gaussian_normalize_of_warp[OF this(1,2)] Some show ?thesis by simp
  qed
  ultimately show ?thesis by blast
qed

lemma warp_onto_reference:
  assumes "dimension img = 3"
  shows "\<exists>w. apply_ants_transform_to_image lib x img reference_image = Inr w \<and>
     dimension w = 3 \<and> shape (pixels w) = [200, 200, 200] \<and>
     origin w = origin reference_image \<and> spacing w = spacing reference_image \<and>
     direction w = direction reference_image"
proof -
  have "dimension reference_image = 3" by simp
  from apply_ants_transform_to_image_ok[OF assms this, of lib x]
  obtain w where w: "apply_ants_transform_to_image lib x img reference_image = Inr w" by blast
  from apply_ants_transform_to_image_Inr_D[OF w] w show ?thesis by simp
qed

lemma wmh_volumes_ok:
  assumes "length (get_center_of_mass lib m) = 3"
    and "length (get_center_of_mass lib reference_image) = 3"
    and "dimension fp = 3" "dimension m = 3"
    and "\<And>t. tp = Some t \<Longrightarrow> dimension t = 3"
  shows "\<exists>x fw tw. wmh_volumes lib fp tp m = Inr (x, fw, tw)"
proof -
  obtain x where x: "wmh_xfrm lib m = Inr x" using wmh_xfrm_ok[OF assms(1,2)] by blast
  obtain fwarp where fwarp: "apply_ants_transform_to_image lib x fp reference_image = Inr fwarp"
    and fg: "dimension fwarp = 3" "shape (pixels fwarp) = [200, 200, 200]"
      "origin fwarp = origin reference_image" "spacing fwarp = spacing reference_image"
      "direction fwarp = direction reference_image"
    using warp_onto_reference[OF assms(3)] by blast
  obtain mwarp where mwarp: "apply_ants_transform_to_image lib x m reference_image = Inr mwarp"
    and mg: "dimension mwarp = 3" "shape (pixels mwarp) = [200, 200, 200]"
      "origin mwarp = origin reference_image" "spacing mwarp = spacing reference_image"
      "direction mwarp = direction reference_image"
    using warp_onto_reference[OF assms(4)] by blast
  have "\<exists>n. gaussian_normalize fwarp (threshold_image mwarp) = Inr n"
    by (rule gaussian_normalize_same_grid) (simp_all add: threshold_image_def fg mg)
  then obtain fn where fn: "gaussian_normalize fwarp (threshold_image mwarp) = Inr fn" by blast
  show ?thesis
  proof (cases tp)
    case None
    then show ?thesis
      unfolding wmh_volumes_def Let_def by (simp add: x fwarp mwarp fn)
  next
    case (Some t)
    from Some assms(5) have "dimension t = 3" by simp
    from warp_onto_reference[OF this]
    obtain twarp where twarp: "apply_ants_transform_to_image lib x t reference_image = Inr twarp"
      and tg: "dimension twarp = 3" "shape (pixels twarp) = [200, 200, 200]"
        "origin twarp = origin reference_image" "spacing twarp = spacing reference_image"
        "direction twarp = direction reference_image"
      by blast
    have "\<exists>n. gaussian_normalize twarp (threshold_image mwarp) = Inr n"
      by (rule gaussian_normalize_same_grid) (simp_all add: threshold_image_def tg mg)
    then obtain tn where tn: "gaussian_normalize twarp (threshold_image mwarp) = Inr tn" by blast
    show ?thesis
      unfolding wmh_volumes_def Let_def by (simp add: x fwarp mwarp fn Some twarp tn)
  qed
qed

subsection \<open>Models\<close>



lemma np_add_Inl_D: "np_add a b = Inl e \<Longrightarrow> other_error e"
  by (auto simp: np_add_def split: if_splits)

lemma wmh_prediction_Inl_D: "wmh_prediction lib ms n b = Inl e \<Longrightarrow> other_error e"
  unfolding wmh_prediction_def ebind_Inl_iff
  by (auto dest: efold_Inl_D[where P = other_error, rotated] np_add_Inl_D)

lemma wmh_prediction_single:
  "wmh_prediction lib ms 1 b =
     Inr \<lparr>shape = shape (predict lib (ms ! 0) b),
          data = (\<lambda>idx. data (predict lib (ms ! 0) b) idx / 1)\<rparr>"
  "wmh_prediction lib ms (Suc 0) b =
     Inr \<lparr>shape = shape (predict lib (ms ! 0) b),
          data = (\<lambda>idx. data (predict lib (ms ! 0) b) idx / 1)\<rparr>"
  by (simp_all add: wmh_prediction_def np_divide_by_def)

lemma upt_1_3: "[1..<3] = [1, 2::nat]" "[Suc 0..<3] = [Suc 0, 2]"
  by (simp_all add: upt_rec)

lemma wmh_prediction_ensemble:
  assumes "shape (predict lib (ms ! 1) b) = shape (predict lib (ms ! 0) b)"
    and "shape (predict lib (ms ! 2) b) = shape (predict lib (ms ! 0) b)"
  shows "wmh_prediction lib ms 3 b =
     Inr \<lparr>shape = shape (predict lib (ms ! 0) b),
          data = (\<lambda>idx. (data (predict lib (ms ! 0) b) idx + data (predict lib (ms ! 1) b) idx
                          + data (predict lib (ms ! 2) b) idx) / 3)\<rparr>"
  using assms by (simp add: wmh_prediction_def upt_1_3 np_add_def np_divide_by_def)

subsection \<open>The way back\<close>

lemma np_transpose_120_Inl_D: "np_transpose_120 a = Inl e \<Longrightarrow> other_error e"
  by (auto simp: np_transpose_120_def split: if_splits)

lemma copy_image_info_Inl_D: "copy_image_info r a = Inl e \<Longrightarrow> other_error e"
  by (auto simp: copy_image_info_def split: if_splits)

lemma wmh_probability_warped_Inl_D:
  "wmh_probability_warped pred fw = Inl e \<Longrightarrow> other_error e"
  by (auto simp: wmh_probability_warped_def ebind_Inl_iff
      dest: np_transpose_120_Inl_D pad_or_crop_Inl_D copy_image_info_Inl_D)

lemma wmh_probability_Inl_D:
  "wmh_probability lib x pred fw flair = Inl e \<Longrightarrow> other_error e"
  by (auto simp: wmh_probability_def ebind_Inl_iff
      dest: wmh_probability_warped_Inl_D apply_ants_transform_to_image_Inl_D)

lemma wmh_probability_warped_Inr_D:
  assumes "wmh_probability_warped pred fw = Inr pw"
  shows "origin pw = origin fw \<and> spacing pw = spacing fw \<and> direction pw = direction fw \<and>
     shape (pixels pw) = shape (pixels fw)"
proof -
  from assms obtain arr img where
    "pad_or_crop_image_to_size 0 arr (shape (pixels fw)) = Inr img"
    "copy_image_info fw img = Inr pw"
    by (auto simp: wmh_probability_warped_def ebind_Inr_iff)
  with pad_or_crop_Inr_D[OF this(1)] show ?thesis
    by (auto simp: copy_image_info_def split: if_splits)
qed

lemma wmh_probability_warped_ok:
  assumes "length (filter (\<lambda>d. d \<noteq> 1) (shape pred)) = 3" "dimension fw = 3"
  shows "\<exists>pw. wmh_probability_warped pred fw = Inr pw"
proof -
  from assms(1) obtain arr where arr: "np_transpose_120 (np_squeeze pred) = Inr arr"
    "length (shape arr) = 3"
    by (simp add: np_transpose_120_def np_squeeze_def)
  from assms(2) arr(2) have "length (shape (pixels fw)) = length (shape arr)"
    by (simp add: dimension_def)
  from pad_or_crop_ok[OF this, of "0::real"] obtain img where
    img: "pad_or_crop_image_to_size 0 arr (shape (pixels fw)) = Inr img"
    "shape img = shape (pixels fw)" by blast
  then show ?thesis
    by (simp add: wmh_probability_warped_def arr(1) copy_image_info_def dimension_def)
qed

lemma wmh_probability_Inr_D:
  assumes "wmh_probability lib x pred fw flair = Inr p"
  shows "\<exists>pw. wmh_probability_warped pred fw = Inr pw \<and>
     apply_ants_transform_to_image lib (invert_ants_transform x) pw flair = Inr p"
  using assms by (auto simp: wmh_probability_def ebind_Inr_iff)

lemma invert_ants_transform_inverse:
  assumes "length (translation x) = length p"
  shows "apply_ants_transform_to_point (invert_ants_transform x)
           (apply_ants_transform_to_point x p) = p"
    and "apply_ants_transform_to_point x
           (apply_ants_transform_to_point (invert_ants_transform x) p) = p"
proof -
  have "\<And>ts. length ts = length p \<Longrightarrow> map2 (+) (map2 (+) p ts) (map uminus ts) = p"
  proof -
    fix ts :: "real list" assume "length ts = length p"
    then show "map2 (+) (map2 (+) p ts) (map uminus ts) = p"
      by (induction ts p rule: list_induct2) simp_all
  qed
  moreover have "\<And>ts. length ts = length p \<Longrightarrow> map2 (+) (map2 (+) p (map uminus ts)) ts = p"
  proof -
    fix ts :: "real list" assume "length ts = length p"
    then show "map2 (+) (map2 (+) p (map uminus ts)) ts = p"
      by (induction ts p rule: list_induct2) simp_all
  qed
  ultimately show "apply_ants_transform_to_point (invert_ants_transform x)
           (apply_ants_transform_to_point x p) = p"
    and "apply_ants_transform_to_point x
           (apply_ants_transform_to_point (invert_ants_transform x) p) = p"
    using assms by (simp_all add: apply_ants_transform_to_point_def invert_ants_transform_def)
qed

subsection \<open>The whole function\<close>

lemma sysu_dimension_error:
  "dimension flair \<noteq> 3 \<Longrightarrow>
     sysu_media_wmh_segmentation lib flair t1 bm dp ue od v st =
       (Inl (ValueError dimension_message), st)"
  by (simp add: sysu_media_wmh_segmentation_def)

lemma sysu_Inl_D:
  assumes "dimension flair = 3"
    and "sysu_media_wmh_segmentation lib flair t1 bm dp ue od v st = (Inl e, st')"
  shows "other_error e"
  using assms
  by (auto simp: sysu_media_wmh_segmentation_def Let_def ebind_Inl_iff
      split: prod.splits sum.splits
      dest: wmh_volumes_Inl_D wmh_batch_Inl_D wmh_prediction_Inl_D wmh_probability_Inl_D)

lemma sysu_Inr_D:
  assumes "sysu_media_wmh_segmentation lib flair t1 bm dp ue od v st = (Inr p, st')"
  shows "dimension flair = 3 \<and>
    (\<exists>fp tp st1 m st2 x fw tw ms st3 b pred.
       wmh_preprocess lib flair t1 dp od v st = (fp, tp, st1) \<and>
       wmh_brain_mask lib flair t1 bm v st1 = (m, st2) \<and>
       wmh_volumes lib fp tp m = Inr (x, fw, tw) \<and>
       wmh_models lib (number_of_channels t1) (number_of_models ue) od v st2 = (ms, st3) \<and>
       wmh_batch fw tw = Inr b \<and>
       wmh_prediction lib ms (number_of_models ue) b = Inr pred \<and>
       wmh_probability lib x pred fw flair = Inr p)"
  using assms
  by (auto simp: sysu_media_wmh_segmentation_def Let_def ebind_Inr_iff
      split: if_splits prod.splits sum.splits)

lemma sysu_run:
  assumes "dimension flair = 3"
    and "wmh_preprocess lib flair t1 dp od v st = (fp, tp, st1)"
    and "wmh_brain_mask lib flair t1 bm v st1 = (m, st2)"
    and "wmh_volumes lib fp tp m = Inr (x, fw, tw)"
    and "wmh_models lib (number_of_channels t1) (number_of_models ue) od v st2 = (ms, st3)"
    and "wmh_batch fw tw = Inr b"
    and "wmh_prediction lib ms (number_of_models ue) b = Inr pred"
    and "wmh_probability lib x pred fw flair = Inr p"
  shows "fst (sysu_media_wmh_segmentation lib flair t1 bm dp ue od v st) = Inr p"
  using assms by (simp add: sysu_media_wmh_segmentation_def Let_def)

section \<open>The claims about sysu_media_wmh_segmentation\<close>

lemma wmh_preprocess_optional:
  "wmh_preprocess lib flair t1 dp od v st = (fp, tp, st1) \<Longrightarrow> (tp = None \<longleftrightarrow> t1 = None)"
  by (auto simp: wmh_preprocess_def Let_def split: prod.splits option.splits if_splits)

lemma number_of_channels_cases:
  "number_of_channels t1 = (case t1 of None \<Rightarrow> 1 | Some t \<Rightarrow> 2)"
  by (simp add: number_of_channels_def)

lemma padded_slice_of_200:
  assumes "dimension vol = 3" "shape (pixels vol) = [200, 200, n]" "i < n"
  shows "\<exists>p. padded_slice vol i = Inr p \<and> shape p = [200, 200] \<and>
     (\<forall>x y. data p [x, y] = data (pixels vol) [x, y, i])"
proof -
  from assms(2,3) have i: "i < shape (pixels vol) ! 2" by simp
  have "padded_slice vol i =
      Inr \<lparr>shape = [200, 200],
           data = (\<lambda>idx. data (pixels vol) (insert_at 2 i (map2 (+) idx [0, 0])))\<rparr>"
    by (simp add: padded_slice_def slice_image_axis2[OF assms(1) i] assms(2)
        pad_or_crop_image_to_size_def size_differences_def crop_image_center_def Let_def)
  then show ?thesis by (simp add: insert_at_def)
qed

text \<open>
  Claim C6. With the volumes that the preprocessing and the warp into the reference frame
  produce, the batch of \<^verbatim>\<open>sysu_media_wmh_segmentation\<close> is built and has the shape
  \<open>(n, 200, 200, c)\<close>: \<open>n\<close> is the number of axial slices of the warped flair volume, and
  \<open>c\<close> is 2 when a T1 image is supplied and 1 otherwise. In row \<open>i\<close>, channel 0 is axial
  slice \<open>i\<close> of the warped flair volume padded or cropped to 200 by 200, and, when there
  is a T1 image, channel 1 is that slice of the warped T1 volume, padded or cropped alike.
  The warped volumes lie on the 200 x 200 x 200 reference grid, so their slices have the
  target size already and reach the batch voxel for voxel: entry \<open>[i, x, y, 0]\<close> of the
  batch is voxel \<open>[x, y, i]\<close> of the warped flair volume, entry \<open>[i, x, y, 1]\<close> that of
  the warped T1 volume.
\<close>

theorem wmh_batch_shape_and_channels:
  assumes "wmh_preprocess lib flair t1 do_preprocessing output_directory verbose st =
             (flair_preprocessed, t1_preprocessed, st1)"
    and "wmh_volumes lib flair_preprocessed t1_preprocessed brain_mask_used =
           Inr (xfrm, flair_w, t1_w)"
  shows "\<exists>batchX. wmh_batch flair_w t1_w = Inr batchX \<and>
     shape batchX = [shape (pixels flair_w) ! 2, 200, 200, number_of_channels t1] \<and>
     number_of_channels t1 = (if t1 = None then 1 else 2) \<and>
     (t1_w = None \<longleftrightarrow> t1 = None) \<and>
     (\<forall>i<shape (pixels flair_w) ! 2.
        (\<exists>p. padded_slice flair_w i = Inr p \<and> shape p = [200, 200] \<and>
              (\<forall>x y. data batchX [i, x, y, 0] = data p [x, y])) \<and>
        (\<forall>w. t1_w = Some w \<longrightarrow>
           (\<exists>p. padded_slice w i = Inr p \<and> shape p = [200, 200] \<and>
                 (\<forall>x y. data batchX [i, x, y, 1] = data p [x, y])))) \<and>
     shape (pixels flair_w) = [200, 200, 200] \<and>
     (\<forall>i<shape (pixels flair_w) ! 2. \<forall>x y.
        data batchX [i, x, y, 0] = data (pixels flair_w) [x, y, i]) \<and>
     (\<forall>w. t1_w = Some w \<longrightarrow>
        shape (pixels w) = [200, 200, 200] \<and>
        (\<forall>i<shape (pixels flair_w) ! 2. \<forall>x y.
           data batchX [i, x, y, 1] = data (pixels w) [x, y, i]))"
proof -
  from wmh_volumes_grid[OF assms(2)]
  have dim: "dimension flair_w = 3" and sh: "shape (pixels flair_w) = [200, 200, 200]"
    and opt: "t1_w = None \<longleftrightarrow> t1_preprocessed = None"
    and tw: "\<And>w. t1_w = Some w \<Longrightarrow> dimension w = 3 \<and> shape (pixels w) = [200, 200, 200]"
    by auto
  have tw': "\<And>w. t1_w = Some w \<Longrightarrow>
      dimension w = 3 \<and> shape (pixels flair_w) ! 2 \<le> shape (pixels w) ! 2"
    using tw sh by simp
  from opt wmh_preprocess_optional[OF assms(1)] have o: "t1_w = None \<longleftrightarrow> t1 = None" by simp
  then have c: "(case t1_w of None \<Rightarrow> 1 | Some w \<Rightarrow> 2) = number_of_channels t1"
    by (cases t1_w; cases t1) (simp_all add: number_of_channels_def)
  have c': "number_of_channels t1 = (if t1 = None then 1 else 2)"
    by (cases t1) (simp_all add: number_of_channels_def)
  from wmh_batch_ok[OF dim tw'] obtain b where
    b: "wmh_batch flair_w t1_w = Inr b"
       "shape b = [shape (pixels flair_w) ! 2, 200, 200, (case t1_w of None \<Rightarrow> 1 | Some w \<Rightarrow> 2)]"
    and planes: "\<forall>i<shape (pixels flair_w) ! 2.
        (\<exists>p. padded_slice flair_w i = Inr p \<and> shape p = [200, 200] \<and>
              (\<forall>x y. data b [i, x, y, 0] = data p [x, y])) \<and>
        (\<forall>w. t1_w = Some w \<longrightarrow>
           (\<exists>p. padded_slice w i = Inr p \<and> shape p = [200, 200] \<and>
                 (\<forall>x y. data b [i, x, y, 1] = data p [x, y])))"
    by blast
  from b(2) c have shb: "shape b = [shape (pixels flair_w) ! 2, 200, 200, number_of_channels t1]"
    by simp
  have v0: "\<forall>i<shape (pixels flair_w) ! 2. \<forall>x y.
        data b [i, x, y, 0] = data (pixels flair_w) [x, y, i]"
  proof (intro allI impI)
    fix i x y assume i: "i < shape (pixels flair_w) ! 2"
    with sh have "i < 200" by simp
    from padded_slice_of_200[OF dim sh this] obtain q where
      q: "padded_slice flair_w i = Inr q" "\<And>x y. data q [x, y] = data (pixels flair_w) [x, y, i]"
      by blast
    from planes i obtain p where "padded_slice flair_w i = Inr p"
      "\<And>x y. data b [i, x, y, 0] = data p [x, y]" by blast
    with q show "data b [i, x, y, 0] = data (pixels flair_w) [x, y, i]" by simp
  qed
  have v1: "\<forall>w. t1_w = Some w \<longrightarrow>
        shape (pixels w) = [200, 200, 200] \<and>
        (\<forall>i<shape (pixels flair_w) ! 2. \<forall>x y.
           data b [i, x, y, 1] = data (pixels w) [x, y, i])"
  proof (intro allI impI conjI)
    fix w assume w: "t1_w = Some w"
    from tw[OF w] show "shape (pixels w) = [200, 200, 200]" by simp
  next
    fix w i x y assume w: "t1_w = Some w" and i: "i < shape (pixels flair_w) ! 2"
    from tw[OF w] have dw: "dimension w = 3" and sw: "shape (pixels w) = [200, 200, 200]"
      by simp_all
    from i sh have "i < 200" by simp
    from padded_slice_of_200[OF dw sw this] obtain q where
      q: "padded_slice w i = Inr q" "\<And>x y. data q [x, y] = data (pixels w) [x, y, i]"
      by blast
    from planes i w obtain p where "padded_slice w i = Inr p"
      "\<And>x y. data b [i, x, y, 1] = data p [x, y]" by blast
    with q show "data b [i, x, y, 1] = data (pixels w) [x, y, i]" by simp
  qed
  from b(1) shb c' o planes sh v0 v1 show ?thesis by blast
qed

lemma example_center_of_mass:
  "get_center_of_mass example_lib img = replicate (dimension img) 0"
  by (simp add: example_lib_def)

lemma replicate_3: "replicate 3 x = [x, x, x]"
  by (simp add: numeral_3_eq_3)

lemma example_volumes:
  assumes "\<And>t. tp = Some t \<Longrightarrow> dimension t = 3"
  shows "\<exists>x fw tw. wmh_volumes example_lib example_volume tp example_volume = Inr (x, fw, tw)"
  by (rule wmh_volumes_ok) (simp_all add: example_volume_simps example_center_of_mass assms)

theorem wmh_batch_shape_and_channels_witness:
  "\<exists>fp tp st1 x fw w batchX.
     wmh_preprocess example_lib example_volume (Some example_volume) False None False example_state
       = (fp, tp, st1) \<and>
     wmh_volumes example_lib fp tp example_volume = Inr (x, fw, Some w) \<and>
     wmh_batch fw (Some w) = Inr batchX \<and> shape batchX = [200, 200, 200, 2] \<and>
     data batchX [5, 1, 2, 0] = data (pixels fw) [1, 2, 5] \<and>
     data batchX [5, 1, 2, 1] = data (pixels w) [1, 2, 5]"
proof -
  have pre: "wmh_preprocess example_lib example_volume (Some example_volume) False None False
      example_state = (example_volume, Some example_volume, example_state)"
    by (simp add: wmh_preprocess_def)
  obtain x fw tw where v:
    "wmh_volumes example_lib example_volume (Some example_volume) example_volume = Inr (x, fw, tw)"
    using example_volumes[of "Some example_volume"] by (auto simp: example_volume_simps)
  from wmh_volumes_grid[OF v] obtain w where tw: "tw = Some w" by auto
  from wmh_batch_shape_and_channels[OF pre v]
  obtain b where b: "wmh_batch fw tw = Inr b"
    "shape b = [shape (pixels fw) ! 2, 200, 200, number_of_channels (Some example_volume)]"
    and sh: "shape (pixels fw) = [200, 200, 200]"
    and v0: "\<forall>i<shape (pixels fw) ! 2. \<forall>x y. data b [i, x, y, 0] = data (pixels fw) [x, y, i]"
    and v1: "\<forall>w. tw = Some w \<longrightarrow> shape (pixels w) = [200, 200, 200] \<and>
        (\<forall>i<shape (pixels fw) ! 2. \<forall>x y. data b [i, x, y, 1] = data (pixels w) [x, y, i])"
    by blast
  from b(2) sh have "shape b = [200, 200, 200, 2]" by (simp add: number_of_channels_def)
  moreover from v0 sh have "data b [5, 1, 2, 0] = data (pixels fw) [1, 2, 5]" by simp
  moreover from v1 tw sh have "data b [5, 1, 2, 1] = data (pixels w) [1, 2, 5]" by simp
  ultimately show ?thesis using pre v b(1) tw by blast
qed

subsection \<open>A run on the example\<close>

lemma example_predict:
  "shape b = [200, 200, 200, 1] \<Longrightarrow>
     predict example_lib m b = \<lparr>shape = [200, 200, 200, 1], data = (\<lambda>idx. 1 / 2)\<rparr>"
  by (simp add: example_lib_def)

lemma example_wmh_run:
  "\<exists>p st'. sysu_media_wmh_segmentation example_lib example_volume None (Some example_volume)
       False ue None False example_state = (Inr p, st')"
proof -
  have pre: "wmh_preprocess example_lib example_volume None False None False example_state
      = (example_volume, None, example_state)"
    by (simp add: wmh_preprocess_def)
  have bm: "wmh_brain_mask example_lib example_volume None (Some example_volume) False example_state
      = (example_volume, example_state)"
    by (simp add: wmh_brain_mask_def)
  obtain x fw tw where v:
    "wmh_volumes example_lib example_volume None example_volume = Inr (x, fw, tw)"
    using example_volumes[of None] by auto
  from wmh_volumes_grid[OF v] have dim: "dimension fw = 3"
    and sh: "shape (pixels fw) = [200, 200, 200]" and tw: "tw = None" by simp_all
  obtain ms st3 where ms: "wmh_models example_lib (number_of_channels None) (number_of_models ue)
      None False example_state = (ms, st3)"
    by (cases "wmh_models example_lib (number_of_channels None) (number_of_models ue)
      None False example_state")
  from wmh_batch_ok[OF dim, of tw] tw sh
  obtain b where b: "wmh_batch fw tw = Inr b" "shape b = [200, 200, 200, 1]" by auto
  have "\<exists>pred. wmh_prediction example_lib ms (number_of_models ue) b = Inr pred \<and>
      shape pred = [200, 200, 200, 1]"
  proof (cases ue)
    case True
    then show ?thesis
      using wmh_prediction_ensemble[of example_lib ms b]
      by (simp add: number_of_models_def example_predict[OF b(2)])
  next
    case False
    then show ?thesis
      by (simp add: number_of_models_def wmh_prediction_single example_predict[OF b(2)])
  qed
  then obtain pred where pred: "wmh_prediction example_lib ms (number_of_models ue) b = Inr pred"
    "shape pred = [200, 200, 200, 1]" by blast
  have "length (filter (\<lambda>d. d \<noteq> 1) (shape pred)) = 3" by (simp add: pred(2))
  from wmh_probability_warped_ok[OF this dim]
  obtain pw where pw: "wmh_probability_warped pred fw = Inr pw" by blast
  from wmh_probability_warped_Inr_D[OF pw] dim have "dimension pw = 3"
    by (simp add: dimension_def)
  from apply_ants_transform_to_image_ok[OF this example_volume_simps(1),
      of example_lib "invert_ants_transform x"]
  obtain p where "apply_ants_transform_to_image example_lib (invert_ants_transform x) pw
      example_volume = Inr p" by blast
  with pw have p: "wmh_probability example_lib x pred fw example_volume = Inr p"
    by (simp add: wmh_probability_def)
  from sysu_run[OF example_volume_simps(1) pre bm v ms b(1) pred(1) p]
  show ?thesis by (metis prod.collapse)
qed



text \<open>
  Claim C4. In a run of \<^verbatim>\<open>sysu_media_wmh_segmentation\<close> that returns, one transform
  \<open>xfrm\<close>, made from the centres of mass, warps the preprocessed flair image onto the
  200 x 200 x 200 reference grid; the probability volume lies on that grid; and the
  returned image is that volume resampled with the inverse of \<open>xfrm\<close> onto the grid of
  the input flair image. It has the flair image's shape, origin, spacing and direction.
  The inverse undoes \<open>xfrm\<close> on every point of space, in both orders.
\<close>

theorem wmh_result_in_native_space:
  assumes "sysu_media_wmh_segmentation lib flair t1 brain_mask do_preprocessing use_ensemble
             output_directory verbose st = (Inr probability_image, st')"
  shows "\<exists>flair_preprocessed t1_preprocessed st1 brain_mask_used st2 xfrm flair_warped
       brain_mask_warped flair_w t1_w prediction probability_image_warped.
     wmh_preprocess lib flair t1 do_preprocessing output_directory verbose st =
       (flair_preprocessed, t1_preprocessed, st1) \<and>
     wmh_brain_mask lib flair t1 brain_mask verbose st1 = (brain_mask_used, st2) \<and>
     wmh_volumes lib flair_preprocessed t1_preprocessed brain_mask_used =
       Inr (xfrm, flair_w, t1_w) \<and>
     wmh_xfrm lib brain_mask_used = Inr xfrm \<and>
     apply_ants_transform_to_image lib xfrm flair_preprocessed reference_image = Inr flair_warped \<and>
     gaussian_normalize flair_warped brain_mask_warped = Inr flair_w \<and>
     wmh_probability_warped prediction flair_w = Inr probability_image_warped \<and>
     shape (pixels probability_image_warped) = [200, 200, 200] \<and>
     origin probability_image_warped = origin reference_image \<and>
     spacing probability_image_warped = spacing reference_image \<and>
     direction probability_image_warped = direction reference_image \<and>
     apply_ants_transform_to_image lib (invert_ants_transform xfrm) probability_image_warped flair
       = Inr probability_image \<and>
     shape (pixels probability_image) = shape (pixels flair) \<and>
     origin probability_image = origin flair \<and>
     spacing probability_image = spacing flair \<and>
     direction probability_image = direction flair \<and>
     (\<forall>idx. data (pixels probability_image) idx =
        interpolate lib probability_image_warped
          (apply_ants_transform_to_point (invert_ants_transform xfrm) (index_to_point flair idx))) \<and>
     (\<forall>p. length p = 3 \<longrightarrow>
        apply_ants_transform_to_point (invert_ants_transform xfrm)
          (apply_ants_transform_to_point xfrm p) = p \<and>
        apply_ants_transform_to_point xfrm
          (apply_ants_transform_to_point (invert_ants_transform xfrm) p) = p)"
proof -
  from sysu_Inr_D[OF assms] obtain fp tp st1 m st2 x fw tw pred where
    pre: "wmh_preprocess lib flair t1 do_preprocessing output_directory verbose st = (fp, tp, st1)"
    and bm: "wmh_brain_mask lib flair t1 brain_mask verbose st1 = (m, st2)"
    and v: "wmh_volumes lib fp tp m = Inr (x, fw, tw)"
    and p: "wmh_probability lib x pred fw flair = Inr probability_image"
    by blast
  from wmh_volumes_Inr_D[OF v] obtain fwarp mwarp where
    x: "wmh_xfrm lib m = Inr x"
    and fwarp: "apply_ants_transform_to_image lib x fp reference_image = Inr fwarp"
    and fw: "gaussian_normalize fwarp (threshold_image mwarp) = Inr fw"
    by blast
  from wmh_volumes_grid[OF v] have grid: "shape (pixels fw) = [200, 200, 200]"
    "origin fw = origin reference_image" "spacing fw = spacing reference_image"
    "direction fw = direction reference_image" by simp_all
  from wmh_probability_Inr_D[OF p] obtain pw where
    pw: "wmh_probability_warped pred fw = Inr pw"
    and unwarp: "apply_ants_transform_to_image lib (invert_ants_transform x) pw flair
       = Inr probability_image" by blast
  from wmh_probability_warped_Inr_D[OF pw] grid
  have pwg: "shape (pixels pw) = [200, 200, 200]" "origin pw = origin reference_image"
    "spacing pw = spacing reference_image" "direction pw = direction reference_image"
    by simp_all
  note native = apply_ants_transform_to_image_Inr_D[OF unwarp]
  have inv: "\<forall>p. length p = 3 \<longrightarrow>
        apply_ants_transform_to_point (invert_ants_transform x)
          (apply_ants_transform_to_point x p) = p \<and>
        apply_ants_transform_to_point x
          (apply_ants_transform_to_point (invert_ants_transform x) p) = p"
    using invert_ants_transform_inverse[of x] wmh_xfrm_Inr_D[OF x] by simp
  show ?thesis
    using pre bm v x fwarp fw pw pwg unwarp native inv by blast
qed

theorem wmh_result_in_native_space_witness:
  "\<exists>p st'.
     sysu_media_wmh_segmentation example_lib example_volume None (Some example_volume)
       False False None False example_state = (Inr p, st') \<and>
     shape (pixels p) = [2, 2, 130] \<and> origin p = [0, 0, 0] \<and> spacing p = [1, 1, 1] \<and>
     direction p = [[1, 0, 0], [0, 1, 0], [0, 0, 1]]"
proof -
  obtain p st' where run: "sysu_media_wmh_segmentation example_lib example_volume None
      (Some example_volume) False False None False example_state = (Inr p, st')"
    using example_wmh_run[of False] by blast
  from wmh_result_in_native_space[OF run]
  have "shape (pixels p) = shape (pixels example_volume) \<and> origin p = origin example_volume \<and>
     spacing p = spacing example_volume \<and> direction p = direction example_volume"
    by blast
  with run show ?thesis by (auto simp: example_volume_def)
qed

section \<open>The claims about both pipelines\<close>

text \<open>
  Claim C1, as amended. \<^verbatim>\<open>brain_age\<close> checks the dimension of \<open>t1\<close>, and
  \<^verbatim>\<open>sysu_media_wmh_segmentation\<close> that of \<open>flair\<close> and of no other image: when it
  is not 3, the call ends in the ValueError of the check at once, with nothing printed,
  downloaded or written, whatever the other arguments and the libraries are. When it is 3,
  the call does not end in that error, whatever its other arguments are.
\<close>

theorem dimension_check_first_and_only:
  "(dimension t1 \<noteq> 3 \<longrightarrow>
      brain_age lib t1 do_preprocessing output_directory verbose st =
        (Inl (ValueError dimension_message), st)) \<and>
   (dimension t1 = 3 \<longrightarrow>
      fst (brain_age lib t1 do_preprocessing output_directory verbose st)
        \<noteq> Inl (ValueError dimension_message)) \<and>
   (dimension flair \<noteq> 3 \<longrightarrow>
      sysu_media_wmh_segmentation lib flair t1_optional brain_mask do_preprocessing use_ensemble
        output_directory verbose st = (Inl (ValueError dimension_message), st)) \<and>
   (dimension flair = 3 \<longrightarrow>
      fst (sysu_media_wmh_segmentation lib flair t1_optional brain_mask do_preprocessing
             use_ensemble output_directory verbose st)
        \<noteq> Inl (ValueError dimension_message))"
proof (intro conjI impI)
  assume "dimension t1 \<noteq> 3"
  then show "brain_age lib t1 do_preprocessing output_directory verbose st =
        (Inl (ValueError dimension_message), st)"
    by (rule brain_age_dimension_error)
next
  assume d: "dimension t1 = 3"
  show "fst (brain_age lib t1 do_preprocessing output_directory verbose st)
        \<noteq> Inl (ValueError dimension_message)"
  proof
    assume "fst (brain_age lib t1 do_preprocessing output_directory verbose st)
        = Inl (ValueError dimension_message)"
    then obtain st' where "brain_age lib t1 do_preprocessing output_directory verbose st =
        (Inl (ValueError dimension_message), st')"
      by (cases "brain_age lib t1 do_preprocessing output_directory verbose st") simp
    from brain_age_Inl_D[OF d this] show False by (simp add: other_error_def)
  qed
next
  assume "dimension flair \<noteq> 3"
  then show "sysu_media_wmh_segmentation lib flair t1_optional brain_mask do_preprocessing
      use_ensemble output_directory verbose st = (Inl (ValueError dimension_message), st)"
    by (rule sysu_dimension_error)
next
  assume d: "dimension flair = 3"
  show "fst (sysu_media_wmh_segmentation lib flair t1_optional brain_mask do_preprocessing
             use_ensemble output_directory verbose st)
        \<noteq> Inl (ValueError dimension_message)"
  proof
    assume "fst (sysu_media_wmh_segmentation lib flair t1_optional brain_mask do_preprocessing
             use_ensemble output_directory verbose st) = Inl (ValueError dimension_message)"
    then obtain st' where "sysu_media_wmh_segmentation lib flair t1_optional brain_mask
        do_preprocessing use_ensemble output_directory verbose st =
        (Inl (ValueError dimension_message), st')"
      by (cases "sysu_media_wmh_segmentation lib flair t1_optional brain_mask
        do_preprocessing use_ensemble output_directory verbose st") simp
    from sysu_Inl_D[OF d this] show False by (simp add: other_error_def)
  qed
qed

lemma example_plane_dimension: "dimension example_plane = 2"
  by (simp add: example_plane_def dimension_def)

theorem dimension_check_first_and_only_witness:
  "brain_age example_lib example_plane True None True example_state =
     (Inl (ValueError dimension_message), example_state) \<and>
   sysu_media_wmh_segmentation example_lib example_plane None None True True None True
     example_state = (Inl (ValueError dimension_message), example_state) \<and>
   fst (brain_age example_lib example_volume True None True example_state)
     \<noteq> Inl (ValueError dimension_message) \<and>
   fst (sysu_media_wmh_segmentation example_lib example_volume (Some example_plane)
          (Some example_plane) True True None True example_state)
     \<noteq> Inl (ValueError dimension_message)"
proof -
  from dimension_check_first_and_only[of example_plane example_lib True None True example_state
      example_plane None None True]
  have a: "brain_age example_lib example_plane True None True example_state =
     (Inl (ValueError dimension_message), example_state)"
    and b: "sysu_media_wmh_segmentation example_lib example_plane None None True True None True
     example_state = (Inl (ValueError dimension_message), example_state)"
    by (simp_all add: example_plane_dimension)
  from dimension_check_first_and_only[of example_volume example_lib True None True example_state
      example_volume "Some example_plane" "Some example_plane" True]
  have c: "fst (brain_age example_lib example_volume True None True example_state)
     \<noteq> Inl (ValueError dimension_message)"
    and d: "fst (sysu_media_wmh_segmentation example_lib example_volume (Some example_plane)
          (Some example_plane) True True None True example_state)
     \<noteq> Inl (ValueError dimension_message)"
    by (simp_all add: example_volume_simps)
  from a b c d show ?thesis by blast
qed

text \<open>
  Claim C1 as stated, for every image input, fails at the optional T1 image: with a
  three-dimensional flair image and brain mask and a two-dimensional T1 image the call
  passes the check, warps the flair image and the mask, and ends in the library's failure
  on the T1 image, not in the ValueError of the check.
\<close>

theorem wmh_t1_dimension_not_checked:
  "dimension example_plane = 2 \<and>
   sysu_media_wmh_segmentation example_lib example_volume (Some example_plane)
     (Some example_volume) False False None False example_state =
     (Inl (LibraryError
        ''apply_ants_transform_to_image: image and transform dimensions differ''),
      example_state)"
proof -
  have d: "dimension example_volume = 3" by (rule example_volume_simps(1))
  obtain w where w: "apply_ants_transform_to_image example_lib
      \<lparr>center = [0, 0, 0], translation = [0, 0, 0]\<rparr> example_volume reference_image = Inr w"
    using warp_onto_reference[OF d] by blast
  have x: "wmh_xfrm example_lib example_volume = Inr \<lparr>center = [0, 0, 0], translation = [0, 0, 0]\<rparr>"
    by (simp add: wmh_xfrm_def Let_def np_sub_def create_ants_transform_def
        example_center_of_mass d replicate_3)
  have t: "apply_ants_transform_to_image example_lib
      \<lparr>center = [0, 0, 0], translation = [0, 0, 0]\<rparr> example_plane reference_image =
      Inl (LibraryError ''apply_ants_transform_to_image: image and transform dimensions differ'')"
    by (simp add: apply_ants_transform_to_image_def example_plane_dimension)
  have v: "wmh_volumes example_lib example_volume (Some example_plane) example_volume =
      Inl (LibraryError ''apply_ants_transform_to_image: image and transform dimensions differ'')"
    unfolding wmh_volumes_def Let_def by (simp add: x w t)
  have pre: "wmh_preprocess example_lib example_volume (Some example_plane) False None False
      example_state = (example_volume, Some example_plane, example_state)"
    by (simp add: wmh_preprocess_def)
  have bm: "wmh_brain_mask example_lib example_volume (Some example_plane) (Some example_volume)
      False example_state = (example_volume, example_state)"
    by (simp add: wmh_brain_mask_def)
  show ?thesis
    by (simp add: example_plane_dimension sysu_media_wmh_segmentation_def d pre bm v)
qed

text \<open>
  Nor is the brain mask checked: a two-dimensional mask passes the check as well, and the
  call ends at the subtraction of the centres of mass (line 139), in NumPy's ValueError for
  arrays of two and of three entries.
\<close>

lemma wmh_brain_mask_dimension_not_checked:
  "sysu_media_wmh_segmentation example_lib example_volume None (Some example_plane)
     False False None False example_state =
     (Inl (ValueError ''operands could not be broadcast together''), example_state)"
proof -
  have x: "wmh_xfrm example_lib example_plane =
      Inl (ValueError ''operands could not be broadcast together'')"
    by (simp add: wmh_xfrm_def Let_def np_sub_def example_center_of_mass
        example_plane_dimension replicate_3 numeral_2_eq_2)
  have v: "wmh_volumes example_lib example_volume None example_plane =
      Inl (ValueError ''operands could not be broadcast together'')"
    unfolding wmh_volumes_def by (simp add: x)
  have pre: "wmh_preprocess example_lib example_volume None False None False
      example_state = (example_volume, None, example_state)"
    by (simp add: wmh_preprocess_def)
  have bm: "wmh_brain_mask example_lib example_volume None (Some example_plane)
      False example_state = (example_plane, example_state)"
    by (simp add: wmh_brain_mask_def)
  show ?thesis
    by (simp add: sysu_media_wmh_segmentation_def example_volume_simps pre bm v)
qed

text \<open>
  Claim C7 fails on the code. \<^verbatim>\<open>brain_age\<close> puts a slash between the directory and
  the file name; \<^verbatim>\<open>sysu_media_wmh_segmentation\<close> concatenates the two with nothing
  between them. For the directory \<^verbatim>\<open>/data/weights\<close> the first looks for (and
  downloads to) \<^verbatim>\<open>/data/weights/DeepBrainNetModel.h5\<close>, the second
  \<^verbatim>\<open>/data/weightssysuMediaWmhFlairOnlyModel0.h5\<close>, a file beside the directory and not
  in it.
\<close>

theorem wmh_weights_beside_the_directory:
  "wmh_weights example_lib 1 (Some ''/data/weights'') False 0 example_state =
     (''/data/weightssysuMediaWmhFlairOnlyModel0.h5'',
      \<lparr>files = {''/data/weightssysuMediaWmhFlairOnlyModel0.h5''},
       trace = [Download ''sysuMediaWmhFlairOnlyModel0''
                  (Some ''/data/weightssysuMediaWmhFlairOnlyModel0.h5'')]\<rparr>) \<and>
   brain_age_weights example_lib (Some ''/data/weights'') False example_state =
     (''/data/weights/DeepBrainNetModel.h5'',
      \<lparr>files = {''/data/weights/DeepBrainNetModel.h5''},
       trace = [Download ''brainAgeDeepBrainNet'' (Some ''/data/weights/DeepBrainNetModel.h5'')]\<rparr>)"
  by (simp add: wmh_weights_def brain_age_weights_def fetch_def say_def example_lib_def
      example_state_def str_digit digit_def Let_def)

end
